theory Spec2Isabelle
  imports Main "HOL-Library.Word"
begin

unbundle bit_operations_syntax

section \<open>Lanes: IEEE-754 binary32 values as bit patterns\<close>

text \<open>
  A lane of a \<open>vector4f\<close> is a C++ \<open>float\<close>: 32 bits, one sign bit, eight bits of
  biased exponent and 23 bits of fraction.  The lane type is the bit pattern itself, so
  that the bitwise intrinsics of the source (\<open>_mm_and_ps\<close>, \<open>_mm_or_ps\<close>, ...) act on it
  directly and "bit-for-bit" is equality of words.

  The arithmetic of the source is the arithmetic of the hardware: \<open>+\<close>, \<open>-\<close>, \<open>*\<close>,
  \<open>/\<close> on \<open>float\<close> and the intrinsics \<open>_mm_add_ps\<close>, \<open>vaddq_f32\<close>, ... are the IEEE-754
  operations in the default rounding mode (round to nearest, ties to even), without
  flushing of subnormals.  They are defined below on exact integers: a finite lane is
  \<open>mant * 2 ^ expo\<close> with its sign, an exact result is rounded once by \<open>round_mag\<close>.
  A NaN operand gives that operand made quiet (the first one, as the SSE instructions
  do); an invalid operation gives \<open>default_nan\<close>.
\<close>

type_synonym lane = "32 word"

definition sign_bit :: "lane \<Rightarrow> bool" where
  "sign_bit a = (2 ^ 31 \<le> unat a)"

definition magnitude :: "lane \<Rightarrow> nat" where
  "magnitude a = unat a mod 2 ^ 31"

definition is_nan :: "lane \<Rightarrow> bool" where
  "is_nan a = (0x7F800000 < magnitude a)"

definition is_inf :: "lane \<Rightarrow> bool" where
  "is_inf a = (magnitude a = 0x7F800000)"

definition is_zero :: "lane \<Rightarrow> bool" where
  "is_zero a = (magnitude a = 0)"

definition is_finite :: "lane \<Rightarrow> bool" where
  "is_finite a = (magnitude a < 0x7F800000)"

definition biased_exp :: "lane \<Rightarrow> nat" where
  "biased_exp a = magnitude a div 2 ^ 23"

definition fraction :: "lane \<Rightarrow> nat" where
  "fraction a = magnitude a mod 2 ^ 23"

text \<open>A finite lane has the value \<open>(if sign_bit a then -1 else 1) * mant a * 2 ^ expo a\<close>.\<close>

definition mant :: "lane \<Rightarrow> nat" where
  "mant a = (if biased_exp a = 0 then fraction a else 2 ^ 23 + fraction a)"

definition expo :: "lane \<Rightarrow> int" where
  "expo a = int (max (biased_exp a) 1) - 150"

text \<open>The number of binary digits of a natural number.\<close>

fun bitlen :: "nat \<Rightarrow> nat" where
  "bitlen n = (if n = 0 then 0 else Suc (bitlen (n div 2)))"

declare bitlen.simps [simp del]

text \<open>\<open>rne m s\<close> is \<open>m / 2 ^ s\<close> rounded to the nearest integer, ties to even.\<close>

definition rne :: "nat \<Rightarrow> nat \<Rightarrow> nat" where
  "rne m s = (if s = 0 then m
              else if 2 ^ (s - 1) < m mod 2 ^ s \<or> (m mod 2 ^ s = 2 ^ (s - 1) \<and> odd (m div 2 ^ s))
                   then m div 2 ^ s + 1 else m div 2 ^ s)"

text \<open>
  \<open>round_mag m e\<close> is the magnitude (the low 31 bits) of the binary32 value nearest to
  \<open>m * 2 ^ e\<close>.  The target exponent \<open>E\<close> keeps 24 significant bits, or fewer in the
  subnormal range; the bits are \<open>(E + 149) * 2 ^ 23 + m'\<close>, which is the subnormal
  encoding when \<open>m' < 2 ^ 23\<close>, the normal one when \<open>2 ^ 23 \<le> m' < 2 ^ 24\<close> and the next
  binade when rounding carried to \<open>2 ^ 24\<close>; overflow gives infinity.
\<close>

definition target_exp :: "nat \<Rightarrow> int \<Rightarrow> int" where
  "target_exp m e = max (- 149) (e + int (bitlen m) - 24)"

definition round_mag :: "nat \<Rightarrow> int \<Rightarrow> nat" where
  "round_mag m e =
    (if m = 0 then 0
     else min 0x7F800000
            (nat (target_exp m e + 149) * 2 ^ 23 +
             (if target_exp m e \<le> e then m * 2 ^ nat (e - target_exp m e)
              else rne m (nat (target_exp m e - e)))))"

definition pack :: "bool \<Rightarrow> nat \<Rightarrow> lane" where
  "pack s bits = word_of_nat (if s then 2 ^ 31 + bits else bits)"

definition quiet :: "lane \<Rightarrow> lane" where
  "quiet a = a OR 0x00400000"

definition default_nan :: lane where
  "default_nan = 0xFFC00000"

definition fneg :: "lane \<Rightarrow> lane" where
  "fneg a = a XOR 0x80000000"

definition fabs :: "lane \<Rightarrow> lane" where
  "fabs a = a AND 0x7FFFFFFF"

text \<open>
  The sum of two signed dyadic numbers \<open>\<plusminus> ma * 2 ^ ea\<close> and \<open>\<plusminus> mb * 2 ^ eb\<close>, rounded
  once.  An exact zero is \<open>+0\<close> unless both operands are negative.
\<close>

definition signed_int :: "bool \<Rightarrow> nat \<Rightarrow> int" where
  "signed_int s m = (if s then - int m else int m)"

definition exact_sum :: "bool \<Rightarrow> nat \<Rightarrow> int \<Rightarrow> bool \<Rightarrow> nat \<Rightarrow> int \<Rightarrow> int" where
  "exact_sum sa ma ea sb mb eb =
     signed_int sa (ma * 2 ^ nat (ea - min ea eb)) + signed_int sb (mb * 2 ^ nat (eb - min ea eb))"

definition finite_sum :: "bool \<Rightarrow> nat \<Rightarrow> int \<Rightarrow> bool \<Rightarrow> nat \<Rightarrow> int \<Rightarrow> lane" where
  "finite_sum sa ma ea sb mb eb =
    (if exact_sum sa ma ea sb mb eb = 0 then pack (sa \<and> sb) 0
     else pack (exact_sum sa ma ea sb mb eb < 0)
            (round_mag (nat \<bar>exact_sum sa ma ea sb mb eb\<bar>) (min ea eb)))"

definition fadd :: "lane \<Rightarrow> lane \<Rightarrow> lane" where
  "fadd a b =
    (if is_nan a then quiet a
     else if is_nan b then quiet b
     else if is_inf a then (if is_inf b \<and> sign_bit a \<noteq> sign_bit b then default_nan else a)
     else if is_inf b then b
     else finite_sum (sign_bit a) (mant a) (expo a) (sign_bit b) (mant b) (expo b))"

definition fsub :: "lane \<Rightarrow> lane \<Rightarrow> lane" where
  "fsub a b =
    (if is_nan a then quiet a
     else if is_nan b then quiet b
     else fadd a (fneg b))"

definition fmul :: "lane \<Rightarrow> lane \<Rightarrow> lane" where
  "fmul a b =
    (if is_nan a then quiet a
     else if is_nan b then quiet b
     else if is_inf a \<or> is_inf b then
       (if is_zero a \<or> is_zero b then default_nan
        else pack (sign_bit a \<noteq> sign_bit b) 0x7F800000)
     else pack (sign_bit a \<noteq> sign_bit b) (round_mag (mant a * mant b) (expo a + expo b)))"

text \<open>
  The fused multiply-add \<open>c + a * b\<close> with a single rounding (\<open>vfmaq_f32\<close> of the
  64-bit NEON family).
\<close>

definition ffma :: "lane \<Rightarrow> lane \<Rightarrow> lane \<Rightarrow> lane" where
  "ffma c a b =
    (if is_nan c then quiet c
     else if is_nan a then quiet a
     else if is_nan b then quiet b
     else if is_inf a \<or> is_inf b then
       (if is_zero a \<or> is_zero b then default_nan
        else if is_inf c \<and> sign_bit c \<noteq> (sign_bit a \<noteq> sign_bit b) then default_nan
        else pack (sign_bit a \<noteq> sign_bit b) 0x7F800000)
     else if is_inf c then c
     else finite_sum (sign_bit c) (mant c) (expo c)
            (sign_bit a \<noteq> sign_bit b) (mant a * mant b) (expo a + expo b))"

text \<open>
  Division: the quotient of the two significands is taken with 60 extra bits and a sticky
  bit for the remainder, which is enough to round it correctly.
\<close>

definition fdiv :: "lane \<Rightarrow> lane \<Rightarrow> lane" where
  "fdiv a b =
    (if is_nan a then quiet a
     else if is_nan b then quiet b
     else if is_inf a then
       (if is_inf b then default_nan else pack (sign_bit a \<noteq> sign_bit b) 0x7F800000)
     else if is_inf b then pack (sign_bit a \<noteq> sign_bit b) 0
     else if is_zero b then
       (if is_zero a then default_nan else pack (sign_bit a \<noteq> sign_bit b) 0x7F800000)
     else pack (sign_bit a \<noteq> sign_bit b)
            (round_mag
              (2 * ((mant a * 2 ^ 60) div mant b) + (if (mant a * 2 ^ 60) mod mant b = 0 then 0 else 1))
              (expo a - expo b - 61)))"

text \<open>The integer square root, bit by bit from position \<open>k\<close> down.\<close>

primrec isqrt_from :: "nat \<Rightarrow> nat \<Rightarrow> nat \<Rightarrow> nat" where
  "isqrt_from 0 n r = r"
| "isqrt_from (Suc k) n r =
     isqrt_from k n (if (r + 2 ^ k) * (r + 2 ^ k) \<le> n then r + 2 ^ k else r)"

definition sqrt_shift :: "int \<Rightarrow> nat" where
  "sqrt_shift e = (if even e then 60 else 61)"

definition fsqrt_mag :: "nat \<Rightarrow> int \<Rightarrow> nat" where
  "fsqrt_mag m e =
    round_mag
      (2 * isqrt_from 48 (m * 2 ^ sqrt_shift e) 0 +
       (if isqrt_from 48 (m * 2 ^ sqrt_shift e) 0 * isqrt_from 48 (m * 2 ^ sqrt_shift e) 0
           = m * 2 ^ sqrt_shift e
        then 0 else 1))
      ((e - int (sqrt_shift e)) div 2 - 1)"

definition fsqrt :: "lane \<Rightarrow> lane" where
  "fsqrt a =
    (if is_nan a then quiet a
     else if is_zero a then a
     else if sign_bit a then default_nan
     else if is_inf a then a
     else pack False (fsqrt_mag (mant a) (expo a)))"

subsection \<open>Comparisons\<close>

text \<open>
  The order of the non-NaN lanes is the order of their sign-magnitude keys; both zeros
  have the key 0.  Every ordered comparison with a NaN is false (\<open>_mm_cmplt_ps\<close>,
  \<open>vcltq_f32\<close>, \<open><\<close> on \<open>float\<close>), and \<open>_mm_cmpneq_ps\<close> is the negation of equality.
\<close>

definition order_key :: "lane \<Rightarrow> int" where
  "order_key a = (if sign_bit a then - int (magnitude a) else int (magnitude a))"

definition feq :: "lane \<Rightarrow> lane \<Rightarrow> bool" where
  "feq a b = (\<not> is_nan a \<and> \<not> is_nan b \<and> order_key a = order_key b)"

definition flt :: "lane \<Rightarrow> lane \<Rightarrow> bool" where
  "flt a b = (\<not> is_nan a \<and> \<not> is_nan b \<and> order_key a < order_key b)"

definition fle :: "lane \<Rightarrow> lane \<Rightarrow> bool" where
  "fle a b = (\<not> is_nan a \<and> \<not> is_nan b \<and> order_key a \<le> order_key b)"

definition fgt :: "lane \<Rightarrow> lane \<Rightarrow> bool" where
  "fgt a b = flt b a"

definition fge :: "lane \<Rightarrow> lane \<Rightarrow> bool" where
  "fge a b = fle b a"

text \<open>
  Two lanes hold the same float when they compare equal (the two zeros do) or are both NaN.
\<close>

definition same_float :: "lane \<Rightarrow> lane \<Rightarrow> bool" where
  "same_float a b = (feq a b \<or> (is_nan a \<and> is_nan b))"

subsection \<open>Rounding to an integral value and conversions\<close>

datatype rounding = To_Nearest_Even | Toward_Negative | Toward_Positive | Toward_Zero

text \<open>\<open>round_int r s m k\<close>: the magnitude of \<open>\<plusminus> m / 2 ^ k\<close> rounded to an integer.\<close>

definition round_int :: "rounding \<Rightarrow> bool \<Rightarrow> nat \<Rightarrow> nat \<Rightarrow> nat" where
  "round_int r s m k =
    (case r of
       To_Nearest_Even \<Rightarrow> rne m k
     | Toward_Zero \<Rightarrow> m div 2 ^ k
     | Toward_Negative \<Rightarrow> (if s \<and> m mod 2 ^ k \<noteq> 0 then m div 2 ^ k + 1 else m div 2 ^ k)
     | Toward_Positive \<Rightarrow> (if \<not> s \<and> m mod 2 ^ k \<noteq> 0 then m div 2 ^ k + 1 else m div 2 ^ k))"

text \<open>
  \<open>_mm_floor_ps\<close>, \<open>_mm_ceil_ps\<close> and \<open>_mm_round_ps\<close>: the IEEE-754 roundToIntegral
  operations.  A lane with \<open>expo a \<ge> 0\<close> (magnitude at least \<open>2 ^ 23\<close>) is an integer
  already; a zero result keeps the sign of the input.
\<close>

definition fround_integral :: "rounding \<Rightarrow> lane \<Rightarrow> lane" where
  "fround_integral r a =
    (if is_nan a then quiet a
     else if is_inf a \<or> 0 \<le> expo a then a
     else pack (sign_bit a) (round_mag (round_int r (sign_bit a) (mant a) (nat (- expo a))) 0))"

text \<open>
  \<open>_mm_cvtps_epi32\<close> (to nearest even) and \<open>_mm_cvttps_epi32\<close> (truncation): a NaN, an
  infinity or a value out of the range of \<open>int32_t\<close> gives \<open>0x80000000\<close>.
\<close>

definition float_to_int :: "rounding \<Rightarrow> lane \<Rightarrow> int" where
  "float_to_int r a =
    signed_int (sign_bit a)
      (if 0 \<le> expo a then mant a * 2 ^ nat (expo a)
       else round_int r (sign_bit a) (mant a) (nat (- expo a)))"

definition cvt_ps_epi32 :: "rounding \<Rightarrow> lane \<Rightarrow> 32 word" where
  "cvt_ps_epi32 r a =
    (if is_nan a \<or> is_inf a \<or> float_to_int r a < - (2 ^ 31) \<or> 2 ^ 31 \<le> float_to_int r a
     then 0x80000000
     else word_of_int (float_to_int r a))"

text \<open>\<open>_mm_cvtepi32_ps\<close>: a signed 32-bit integer to the nearest float.\<close>

definition cvt_epi32_ps :: "32 word \<Rightarrow> lane" where
  "cvt_epi32_ps i = pack (sint i < 0) (round_mag (nat \<bar>sint i\<bar>) 0)"


section \<open>Vectors, masks and build targets\<close>

text \<open>
  \<open>vector4f\<close> is \<open>__m128\<close>, \<open>float32x4_t\<close> or a struct of four floats, by the build: four
  lanes in the order x, y, z, w in each case.  The fields are \<open>lane_x\<close> ... \<open>lane_w\<close>
  (the source's \<open>x\<close> ... \<open>w\<close>).  A \<open>mask4i\<close> has the same shape; a comparison sets each
  lane of it to all ones or to zero.
\<close>

record vector4f =
  lane_x :: lane
  lane_y :: lane
  lane_z :: lane
  lane_w :: lane

type_synonym mask4i = vector4f

text \<open>
  Modelled from the spec: the platform macros of \<open>rtm/math.h\<close>, which is not under src/.
  A build selects exactly one of the hardware families or the portable fallback; within
  the x86 family AVX implies SSE4 implies SSE2, and the 64-bit NEON family implies NEON.
\<close>

datatype backend = Scalar | SSE2 | SSE4 | AVX | NEON | NEON64

definition sse2_intrinsics :: "backend \<Rightarrow> bool" where
  "sse2_intrinsics b = (b = SSE2 \<or> b = SSE4 \<or> b = AVX)"

definition sse4_intrinsics :: "backend \<Rightarrow> bool" where
  "sse4_intrinsics b = (b = SSE4 \<or> b = AVX)"

definition avx_intrinsics :: "backend \<Rightarrow> bool" where
  "avx_intrinsics b = (b = AVX)"

definition neon_intrinsics :: "backend \<Rightarrow> bool" where
  "neon_intrinsics b = (b = NEON \<or> b = NEON64)"

definition neon64_intrinsics :: "backend \<Rightarrow> bool" where
  "neon64_intrinsics b = (b = NEON64)"

text \<open>
  The collaborators that are neither under src/ nor IEEE-754 operations: the scalar
  kernels of \<open>rtm/scalarf.h\<close> and the reciprocal estimate instructions of the hardware,
  whose results are implementation defined.  They are parameters of the model; a theorem
  that quantifies over \<open>externals\<close> holds whatever they compute.
\<close>

record externals =
  scalar_floor :: "lane \<Rightarrow> lane"
  scalar_ceil :: "lane \<Rightarrow> lane"
  scalar_round_bankers :: "lane \<Rightarrow> lane"
  scalar_sin :: "lane \<Rightarrow> lane"
  scalar_cos :: "lane \<Rightarrow> lane"
  scalar_atan :: "lane \<Rightarrow> lane"
  scalar_atan2 :: "lane \<Rightarrow> lane \<Rightarrow> lane"
  scalar_sqrt_reciprocal :: "lane \<Rightarrow> lane"
  mm_rcp_ps_lane :: "lane \<Rightarrow> lane"
  vrecpe_lane :: "lane \<Rightarrow> lane"
  vrecps_lane :: "lane \<Rightarrow> lane \<Rightarrow> lane"

definition map_lanes :: "(lane \<Rightarrow> lane) \<Rightarrow> vector4f \<Rightarrow> vector4f" where
  "map_lanes f a =
     \<lparr>lane_x = f (lane_x a), lane_y = f (lane_y a), lane_z = f (lane_z a), lane_w = f (lane_w a)\<rparr>"

definition zip_lanes :: "(lane \<Rightarrow> lane \<Rightarrow> lane) \<Rightarrow> vector4f \<Rightarrow> vector4f \<Rightarrow> vector4f" where
  "zip_lanes f a b =
     \<lparr>lane_x = f (lane_x a) (lane_x b), lane_y = f (lane_y a) (lane_y b),
      lane_z = f (lane_z a) (lane_z b), lane_w = f (lane_w a) (lane_w b)\<rparr>"

definition zip3_lanes :: "(lane \<Rightarrow> lane \<Rightarrow> lane \<Rightarrow> lane) \<Rightarrow> vector4f \<Rightarrow> vector4f \<Rightarrow> vector4f \<Rightarrow> vector4f" where
  "zip3_lanes f a b c =
     \<lparr>lane_x = f (lane_x a) (lane_x b) (lane_x c), lane_y = f (lane_y a) (lane_y b) (lane_y c),
      lane_z = f (lane_z a) (lane_z b) (lane_z c), lane_w = f (lane_w a) (lane_w b) (lane_w c)\<rparr>"

text \<open>Lane \<open>i\<close> of a register, \<open>i\<close> taken modulo 4 as the two-bit selectors of the shuffles are.\<close>

definition get_lane :: "vector4f \<Rightarrow> nat \<Rightarrow> lane" where
  "get_lane a i =
     (if i mod 4 = 0 then lane_x a else if i mod 4 = 1 then lane_y a
      else if i mod 4 = 2 then lane_z a else lane_w a)"

definition mask_value :: "bool \<Rightarrow> lane" where
  "mask_value c = (if c then 0xFFFFFFFF else 0)"

subsection \<open>Helpers of rtm/impl/vector\_common.h\<close>

text \<open>
  Modelled from the spec: \<open>vector_set\<close>, \<open>vector_zero\<close>, \<open>rtm_impl::get_mask_value\<close> and
  \<open>rtm_impl::select\<close> of \<open>rtm/impl/vector_common.h\<close>, which is not under src/.
  \<open>vector_set\<close> builds a vector from four lanes, or replicates one lane (a "broadcast"),
  or takes three lanes and zero-fills w; \<open>vector_zero\<close> is four lanes of \<open>+0.0\<close>;
  a mask lane is all ones or all zeros; \<open>select\<close> is the source's
  \<open>mask != 0 ? if_true : if_false\<close>.
\<close>

definition vector_set :: "lane \<Rightarrow> lane \<Rightarrow> lane \<Rightarrow> lane \<Rightarrow> vector4f" where
  "vector_set x y z w = \<lparr>lane_x = x, lane_y = y, lane_z = z, lane_w = w\<rparr>"

definition vector_set1 :: "lane \<Rightarrow> vector4f" where
  "vector_set1 xyzw = vector_set xyzw xyzw xyzw xyzw"

definition vector_set3 :: "lane \<Rightarrow> lane \<Rightarrow> lane \<Rightarrow> vector4f" where
  "vector_set3 x y z = vector_set x y z 0"

definition vector_zero :: vector4f where
  "vector_zero = vector_set1 0"

definition get_mask_value :: "bool \<Rightarrow> lane" where
  "get_mask_value is_true = mask_value is_true"

definition select_lane :: "lane \<Rightarrow> lane \<Rightarrow> lane \<Rightarrow> lane" where
  "select_lane msk if_true if_false = (if msk \<noteq> 0 then if_true else if_false)"

subsection \<open>SSE intrinsics\<close>

definition mm_set_ps1 :: "lane \<Rightarrow> vector4f" where
  "mm_set_ps1 a = \<lparr>lane_x = a, lane_y = a, lane_z = a, lane_w = a\<rparr>"

text \<open>\<open>_mm_set_ps(e3, e2, e1, e0)\<close> lists the lanes from the highest down.\<close>

definition mm_set_ps :: "lane \<Rightarrow> lane \<Rightarrow> lane \<Rightarrow> lane \<Rightarrow> vector4f" where
  "mm_set_ps e3 e2 e1 e0 = \<lparr>lane_x = e0, lane_y = e1, lane_z = e2, lane_w = e3\<rparr>"

definition mm_setzero_ps :: vector4f where
  "mm_setzero_ps = mm_set_ps1 0"

definition mm_set_ss :: "lane \<Rightarrow> vector4f" where
  "mm_set_ss a = \<lparr>lane_x = a, lane_y = 0, lane_z = 0, lane_w = 0\<rparr>"

definition mm_move_ss :: "vector4f \<Rightarrow> vector4f \<Rightarrow> vector4f" where
  "mm_move_ss a b = \<lparr>lane_x = lane_x b, lane_y = lane_y a, lane_z = lane_z a, lane_w = lane_w a\<rparr>"

definition mm_cvtss_f32 :: "vector4f \<Rightarrow> lane" where
  "mm_cvtss_f32 a = lane_x a"

text \<open>
  \<open>_mm_shuffle_ps(a, b, _MM_SHUFFLE(i3, i2, i1, i0))\<close>: the two low lanes come from \<open>a\<close>,
  the two high lanes from \<open>b\<close>.
\<close>

definition mm_shuffle_ps :: "vector4f \<Rightarrow> vector4f \<Rightarrow> nat \<Rightarrow> nat \<Rightarrow> nat \<Rightarrow> nat \<Rightarrow> vector4f" where
  "mm_shuffle_ps a b i3 i2 i1 i0 =
     \<lparr>lane_x = get_lane a i0, lane_y = get_lane a i1, lane_z = get_lane b i2, lane_w = get_lane b i3\<rparr>"

definition mm_add_ps :: "vector4f \<Rightarrow> vector4f \<Rightarrow> vector4f" where
  "mm_add_ps = zip_lanes fadd"

definition mm_sub_ps :: "vector4f \<Rightarrow> vector4f \<Rightarrow> vector4f" where
  "mm_sub_ps = zip_lanes fsub"

definition mm_mul_ps :: "vector4f \<Rightarrow> vector4f \<Rightarrow> vector4f" where
  "mm_mul_ps = zip_lanes fmul"

definition mm_div_ps :: "vector4f \<Rightarrow> vector4f \<Rightarrow> vector4f" where
  "mm_div_ps = zip_lanes fdiv"

definition mm_add_ss :: "vector4f \<Rightarrow> vector4f \<Rightarrow> vector4f" where
  "mm_add_ss a b = a\<lparr>lane_x := fadd (lane_x a) (lane_x b)\<rparr>"

definition mm_and_ps :: "vector4f \<Rightarrow> vector4f \<Rightarrow> vector4f" where
  "mm_and_ps = zip_lanes (\<lambda>a b. a AND b)"

definition mm_andnot_ps :: "vector4f \<Rightarrow> vector4f \<Rightarrow> vector4f" where
  "mm_andnot_ps = zip_lanes (\<lambda>a b. NOT a AND b)"

definition mm_or_ps :: "vector4f \<Rightarrow> vector4f \<Rightarrow> vector4f" where
  "mm_or_ps = zip_lanes (\<lambda>a b. a OR b)"

definition mm_xor_ps :: "vector4f \<Rightarrow> vector4f \<Rightarrow> vector4f" where
  "mm_xor_ps = zip_lanes (\<lambda>a b. a XOR b)"

definition mm_cmpeq_ps :: "vector4f \<Rightarrow> vector4f \<Rightarrow> vector4f" where
  "mm_cmpeq_ps = zip_lanes (\<lambda>a b. mask_value (feq a b))"

definition mm_cmpneq_ps :: "vector4f \<Rightarrow> vector4f \<Rightarrow> vector4f" where
  "mm_cmpneq_ps = zip_lanes (\<lambda>a b. mask_value (\<not> feq a b))"

definition mm_cmplt_ps :: "vector4f \<Rightarrow> vector4f \<Rightarrow> vector4f" where
  "mm_cmplt_ps = zip_lanes (\<lambda>a b. mask_value (flt a b))"

definition mm_cmple_ps :: "vector4f \<Rightarrow> vector4f \<Rightarrow> vector4f" where
  "mm_cmple_ps = zip_lanes (\<lambda>a b. mask_value (fle a b))"

definition mm_cmpgt_ps :: "vector4f \<Rightarrow> vector4f \<Rightarrow> vector4f" where
  "mm_cmpgt_ps = zip_lanes (\<lambda>a b. mask_value (fgt a b))"

definition mm_cmpge_ps :: "vector4f \<Rightarrow> vector4f \<Rightarrow> vector4f" where
  "mm_cmpge_ps = zip_lanes (\<lambda>a b. mask_value (fge a b))"

text \<open>\<open>_mm_movemask_ps\<close>: bit \<open>i\<close> of the result is the sign bit of lane \<open>i\<close>.\<close>

definition mm_movemask_ps :: "vector4f \<Rightarrow> 32 word" where
  "mm_movemask_ps a =
     (if sign_bit (lane_x a) then 1 else 0) OR (if sign_bit (lane_y a) then 2 else 0) OR
     (if sign_bit (lane_z a) then 4 else 0) OR (if sign_bit (lane_w a) then 8 else 0)"

text \<open>\<open>_mm_blendv_ps(a, b, mask)\<close> takes a lane of \<open>b\<close> where the sign bit of the mask lane is set.\<close>

definition mm_blendv_ps :: "vector4f \<Rightarrow> vector4f \<Rightarrow> vector4f \<Rightarrow> vector4f" where
  "mm_blendv_ps a b msk =
     \<lparr>lane_x = (if sign_bit (lane_x msk) then lane_x b else lane_x a),
      lane_y = (if sign_bit (lane_y msk) then lane_y b else lane_y a),
      lane_z = (if sign_bit (lane_z msk) then lane_z b else lane_z a),
      lane_w = (if sign_bit (lane_w msk) then lane_w b else lane_w a)\<rparr>"

definition mm_floor_ps :: "vector4f \<Rightarrow> vector4f" where
  "mm_floor_ps = map_lanes (fround_integral Toward_Negative)"

definition mm_ceil_ps :: "vector4f \<Rightarrow> vector4f" where
  "mm_ceil_ps = map_lanes (fround_integral Toward_Positive)"

text \<open>\<open>_mm_round_ps(a, _MM_FROUND_TO_NEAREST_INT | _MM_FROUND_NO_EXC)\<close>.\<close>

definition mm_round_ps_nearest :: "vector4f \<Rightarrow> vector4f" where
  "mm_round_ps_nearest = map_lanes (fround_integral To_Nearest_Even)"

definition mm_cvtps_epi32 :: "vector4f \<Rightarrow> vector4f" where
  "mm_cvtps_epi32 = map_lanes (cvt_ps_epi32 To_Nearest_Even)"

definition mm_cvttps_epi32 :: "vector4f \<Rightarrow> vector4f" where
  "mm_cvttps_epi32 = map_lanes (cvt_ps_epi32 Toward_Zero)"

definition mm_cvtepi32_ps :: "vector4f \<Rightarrow> vector4f" where
  "mm_cvtepi32_ps = map_lanes cvt_epi32_ps"

definition mm_rcp_ps :: "externals \<Rightarrow> vector4f \<Rightarrow> vector4f" where
  "mm_rcp_ps ext = map_lanes (mm_rcp_ps_lane ext)"

subsection \<open>NEON intrinsics\<close>

text \<open>A 64-bit \<open>float32x2_t\<close> is a pair of lanes.\<close>

type_synonym float32x2 = "lane \<times> lane"

definition vgetq_lane_f32 :: "vector4f \<Rightarrow> nat \<Rightarrow> lane" where
  "vgetq_lane_f32 a i = get_lane a i"

definition vsetq_lane_f32 :: "lane \<Rightarrow> vector4f \<Rightarrow> nat \<Rightarrow> vector4f" where
  "vsetq_lane_f32 v a i =
     (if i = 0 then a\<lparr>lane_x := v\<rparr> else if i = 1 then a\<lparr>lane_y := v\<rparr>
      else if i = 2 then a\<lparr>lane_z := v\<rparr> else a\<lparr>lane_w := v\<rparr>)"

definition vaddq_f32 :: "vector4f \<Rightarrow> vector4f \<Rightarrow> vector4f" where
  "vaddq_f32 = zip_lanes fadd"

definition vsubq_f32 :: "vector4f \<Rightarrow> vector4f \<Rightarrow> vector4f" where
  "vsubq_f32 = zip_lanes fsub"

definition vmulq_f32 :: "vector4f \<Rightarrow> vector4f \<Rightarrow> vector4f" where
  "vmulq_f32 = zip_lanes fmul"

definition vmulq_n_f32 :: "vector4f \<Rightarrow> lane \<Rightarrow> vector4f" where
  "vmulq_n_f32 a n = map_lanes (\<lambda>x. fmul x n) a"

definition vdivq_f32 :: "vector4f \<Rightarrow> vector4f \<Rightarrow> vector4f" where
  "vdivq_f32 = zip_lanes fdiv"

text \<open>
  \<open>vmlaq\<close> and \<open>vmlsq\<close> multiply, round, then accumulate; \<open>vfmaq\<close> and \<open>vfmsq\<close> are fused
  (\<open>vfmsq\<close> negates the first factor).  The \<open>_n\<close> forms take the second factor as a scalar.
\<close>

definition vmlaq_n_f32 :: "vector4f \<Rightarrow> vector4f \<Rightarrow> lane \<Rightarrow> vector4f" where
  "vmlaq_n_f32 a b n = zip_lanes (\<lambda>x y. fadd x (fmul y n)) a b"

definition vmlsq_n_f32 :: "vector4f \<Rightarrow> vector4f \<Rightarrow> lane \<Rightarrow> vector4f" where
  "vmlsq_n_f32 a b n = zip_lanes (\<lambda>x y. fsub x (fmul y n)) a b"

definition vfmaq_n_f32 :: "vector4f \<Rightarrow> vector4f \<Rightarrow> lane \<Rightarrow> vector4f" where
  "vfmaq_n_f32 a b n = zip_lanes (\<lambda>x y. ffma x y n) a b"

definition vfmsq_n_f32 :: "vector4f \<Rightarrow> vector4f \<Rightarrow> lane \<Rightarrow> vector4f" where
  "vfmsq_n_f32 a b n = zip_lanes (\<lambda>x y. ffma x (fneg y) n) a b"

definition vget_low_f32 :: "vector4f \<Rightarrow> float32x2" where
  "vget_low_f32 a = (lane_x a, lane_y a)"

definition vget_high_f32 :: "vector4f \<Rightarrow> float32x2" where
  "vget_high_f32 a = (lane_z a, lane_w a)"

definition vadd_f32 :: "float32x2 \<Rightarrow> float32x2 \<Rightarrow> float32x2" where
  "vadd_f32 a b = (fadd (fst a) (fst b), fadd (snd a) (snd b))"

text \<open>\<open>vpadd_f32\<close> adds the two lanes of each operand.\<close>

definition vpadd_f32 :: "float32x2 \<Rightarrow> float32x2 \<Rightarrow> float32x2" where
  "vpadd_f32 a b = (fadd (fst a) (snd a), fadd (fst b) (snd b))"

definition vdup_lane_f32 :: "float32x2 \<Rightarrow> nat \<Rightarrow> float32x2" where
  "vdup_lane_f32 a i = (if i = 0 then (fst a, fst a) else (snd a, snd a))"

definition vget_lane_f32 :: "float32x2 \<Rightarrow> nat \<Rightarrow> lane" where
  "vget_lane_f32 a i = (if i = 0 then fst a else snd a)"

definition vcombine_f32 :: "float32x2 \<Rightarrow> float32x2 \<Rightarrow> vector4f" where
  "vcombine_f32 lo hi = \<lparr>lane_x = fst lo, lane_y = snd lo, lane_z = fst hi, lane_w = snd hi\<rparr>"

definition vceqq_f32 :: "vector4f \<Rightarrow> vector4f \<Rightarrow> vector4f" where
  "vceqq_f32 = zip_lanes (\<lambda>a b. mask_value (feq a b))"

definition vcltq_f32 :: "vector4f \<Rightarrow> vector4f \<Rightarrow> vector4f" where
  "vcltq_f32 = zip_lanes (\<lambda>a b. mask_value (flt a b))"

definition vcgeq_f32 :: "vector4f \<Rightarrow> vector4f \<Rightarrow> vector4f" where
  "vcgeq_f32 = zip_lanes (\<lambda>a b. mask_value (fge a b))"

text \<open>\<open>vbslq_f32(mask, a, b)\<close> selects bit by bit.\<close>

definition vbslq_f32 :: "vector4f \<Rightarrow> vector4f \<Rightarrow> vector4f \<Rightarrow> vector4f" where
  "vbslq_f32 msk a b =
     \<lparr>lane_x = (lane_x msk AND lane_x a) OR (NOT (lane_x msk) AND lane_x b),
      lane_y = (lane_y msk AND lane_y a) OR (NOT (lane_y msk) AND lane_y b),
      lane_z = (lane_z msk AND lane_z a) OR (NOT (lane_z msk) AND lane_z b),
      lane_w = (lane_w msk AND lane_w a) OR (NOT (lane_w msk) AND lane_w b)\<rparr>"

text \<open>
  The mask reductions of the NEON path work on bytes.  A register is the list of its
  bytes, lowest address first (the lanes are little endian): 16 bytes for \<open>uint32x4_t\<close>,
  8 bytes for a 64-bit half.  \<open>vzip_u8\<close> interleaves bytes, \<open>vzip_u16\<close> interleaves
  pairs of bytes; each returns its two halves \<open>val[0]\<close> and \<open>val[1]\<close>.
\<close>

definition lane_bytes :: "lane \<Rightarrow> 8 word list" where
  "lane_bytes a = [ucast a, ucast (drop_bit 8 a), ucast (drop_bit 16 a), ucast (drop_bit 24 a)]"

definition register_bytes :: "vector4f \<Rightarrow> 8 word list" where
  "register_bytes a = lane_bytes (lane_x a) @ lane_bytes (lane_y a) @ lane_bytes (lane_z a) @ lane_bytes (lane_w a)"

definition vget_low_u8 :: "vector4f \<Rightarrow> 8 word list" where
  "vget_low_u8 a = take 8 (register_bytes a)"

definition vget_high_u8 :: "vector4f \<Rightarrow> 8 word list" where
  "vget_high_u8 a = drop 8 (register_bytes a)"

fun interleave :: "'a list \<Rightarrow> 'a list \<Rightarrow> 'a list" where
  "interleave (a # as) (b # bs) = a # b # interleave as bs"
| "interleave as bs = []"

fun interleave2 :: "'a list \<Rightarrow> 'a list \<Rightarrow> 'a list" where
  "interleave2 (a0 # a1 # as) (b0 # b1 # bs) = a0 # a1 # b0 # b1 # interleave2 as bs"
| "interleave2 as bs = []"

definition vzip_u8 :: "8 word list \<Rightarrow> 8 word list \<Rightarrow> 8 word list \<times> 8 word list" where
  "vzip_u8 a b = (interleave (take 4 a) (take 4 b), interleave (drop 4 a) (drop 4 b))"

definition vzip_u16 :: "8 word list \<Rightarrow> 8 word list \<Rightarrow> 8 word list \<times> 8 word list" where
  "vzip_u16 a b = (interleave2 (take 4 a) (take 4 b), interleave2 (drop 4 a) (drop 4 b))"

text \<open>\<open>vget_lane_u32(r, i)\<close> of a 64-bit register: the four bytes of lane \<open>i\<close> as one word.\<close>

definition vget_lane_u32 :: "8 word list \<Rightarrow> nat \<Rightarrow> 32 word" where
  "vget_lane_u32 r i =
     ucast (r ! (4 * i)) OR push_bit 8 (ucast (r ! (4 * i + 1))) OR
     push_bit 16 (ucast (r ! (4 * i + 2))) OR push_bit 24 (ucast (r ! (4 * i + 3)))"


section \<open>The operations of rtm/vector4f.h\<close>

text \<open>
  Each operation takes the build target first and follows the \<open>#if\<close> chain of the source
  branch by branch.  The wrapper structs of \<open>rtm_impl\<close> that convert implicitly are modelled
  by one function per conversion operator, named after the struct and the result type.
\<close>

subsection \<open>Setters and getters\<close>

text \<open>\<open>vector4f_vector_get_x::operator float\<close> and its siblings.\<close>

definition vector_get_x :: "backend \<Rightarrow> vector4f \<Rightarrow> lane" where
  "vector_get_x b input =
     (if sse2_intrinsics b then mm_cvtss_f32 input
      else if neon_intrinsics b then vgetq_lane_f32 input 0
      else lane_x input)"

definition vector_get_y :: "backend \<Rightarrow> vector4f \<Rightarrow> lane" where
  "vector_get_y b input =
     (if sse2_intrinsics b then mm_cvtss_f32 (mm_shuffle_ps input input 1 1 1 1)
      else if neon_intrinsics b then vgetq_lane_f32 input 1
      else lane_y input)"

definition vector_get_z :: "backend \<Rightarrow> vector4f \<Rightarrow> lane" where
  "vector_get_z b input =
     (if sse2_intrinsics b then mm_cvtss_f32 (mm_shuffle_ps input input 2 2 2 2)
      else if neon_intrinsics b then vgetq_lane_f32 input 2
      else lane_z input)"

definition vector_get_w :: "backend \<Rightarrow> vector4f \<Rightarrow> lane" where
  "vector_get_w b input =
     (if sse2_intrinsics b then mm_cvtss_f32 (mm_shuffle_ps input input 3 3 3 3)
      else if neon_intrinsics b then vgetq_lane_f32 input 3
      else lane_w input)"

definition vector_set_x :: "backend \<Rightarrow> vector4f \<Rightarrow> lane \<Rightarrow> vector4f" where
  "vector_set_x b input lane_value =
     (if sse2_intrinsics b then mm_move_ss input (mm_set_ss lane_value)
      else if neon_intrinsics b then vsetq_lane_f32 lane_value input 0
      else \<lparr>lane_x = lane_value, lane_y = lane_y input, lane_z = lane_z input, lane_w = lane_w input\<rparr>)"

subsection \<open>Arithmetic\<close>

definition vector_add :: "backend \<Rightarrow> vector4f \<Rightarrow> vector4f \<Rightarrow> vector4f" where
  "vector_add b lhs rhs =
     (if sse2_intrinsics b then mm_add_ps lhs rhs
      else if neon_intrinsics b then vaddq_f32 lhs rhs
      else vector_set (fadd (lane_x lhs) (lane_x rhs)) (fadd (lane_y lhs) (lane_y rhs))
                      (fadd (lane_z lhs) (lane_z rhs)) (fadd (lane_w lhs) (lane_w rhs)))"

definition vector_sub :: "backend \<Rightarrow> vector4f \<Rightarrow> vector4f \<Rightarrow> vector4f" where
  "vector_sub b lhs rhs =
     (if sse2_intrinsics b then mm_sub_ps lhs rhs
      else if neon_intrinsics b then vsubq_f32 lhs rhs
      else vector_set (fsub (lane_x lhs) (lane_x rhs)) (fsub (lane_y lhs) (lane_y rhs))
                      (fsub (lane_z lhs) (lane_z rhs)) (fsub (lane_w lhs) (lane_w rhs)))"

definition vector_mul :: "backend \<Rightarrow> vector4f \<Rightarrow> vector4f \<Rightarrow> vector4f" where
  "vector_mul b lhs rhs =
     (if sse2_intrinsics b then mm_mul_ps lhs rhs
      else if neon_intrinsics b then vmulq_f32 lhs rhs
      else vector_set (fmul (lane_x lhs) (lane_x rhs)) (fmul (lane_y lhs) (lane_y rhs))
                      (fmul (lane_z lhs) (lane_z rhs)) (fmul (lane_w lhs) (lane_w rhs)))"

text \<open>The overload \<open>vector_mul(vector4f, float)\<close>.\<close>

definition vector_mul_float :: "backend \<Rightarrow> vector4f \<Rightarrow> lane \<Rightarrow> vector4f" where
  "vector_mul_float b lhs rhs =
     (if neon_intrinsics b then vmulq_n_f32 lhs rhs
      else vector_mul b lhs (vector_set1 rhs))"

text \<open>
  The overload \<open>vector_mul(vector4f, scalarf)\<close> of the SSE2 builds: the shuffle replicates
  lane x of the register of \<open>rhs\<close>.
\<close>

definition vector_mul_scalarf :: "vector4f \<Rightarrow> lane \<Rightarrow> vector4f" where
  "vector_mul_scalarf lhs rhs = mm_mul_ps lhs (mm_set_ps1 rhs)"

text \<open>
  \<open>vector_div\<close>; the 32-bit NEON path refines the hardware's reciprocal estimate by two
  Newton-Raphson steps instead of dividing.
\<close>

definition vector_div :: "externals \<Rightarrow> backend \<Rightarrow> vector4f \<Rightarrow> vector4f \<Rightarrow> vector4f" where
  "vector_div ext b lhs rhs =
     (if sse2_intrinsics b then mm_div_ps lhs rhs
      else if neon64_intrinsics b then vdivq_f32 lhs rhs
      else if neon_intrinsics b then
        (let x0 = map_lanes (vrecpe_lane ext) rhs;
             x1 = vmulq_f32 x0 (zip_lanes (vrecps_lane ext) x0 rhs);
             x2 = vmulq_f32 x1 (zip_lanes (vrecps_lane ext) x1 rhs)
         in vmulq_f32 lhs x2)
      else vector_set (fdiv (lane_x lhs) (lane_x rhs)) (fdiv (lane_y lhs) (lane_y rhs))
                      (fdiv (lane_z lhs) (lane_z rhs)) (fdiv (lane_w lhs) (lane_w rhs)))"

text \<open>
  \<open>vector_ceil\<close> and \<open>vector_floor\<close>.  On the SSE2 path the mask of the lanes that are
  returned as they are is built first; \<open>_mm_cvtepi32_ps\<close> of a mask turns all ones, the
  integer \<open>-1\<close>, into \<open>-1.0\<close>.
\<close>

definition float_2p23 :: lane where
  "float_2p23 = 0x4B000000"

definition float_half :: lane where
  "float_half = 0x3F000000"

definition abs_mask :: vector4f where
  "abs_mask = mm_set_ps1 0x7FFFFFFF"

definition vector_ceil :: "externals \<Rightarrow> backend \<Rightarrow> vector4f \<Rightarrow> vector4f" where
  "vector_ceil ext b input =
     (if sse4_intrinsics b then mm_ceil_ps input
      else if sse2_intrinsics b then
        (let fractional_limit = mm_set_ps1 float_2p23;
             abs_input = mm_and_ps input abs_mask;
             is_input_large = mm_cmpge_ps abs_input fractional_limit;
             is_nan = mm_cmpneq_ps input input;
             use_original_input = mm_or_ps is_input_large is_nan;
             integer_part = mm_cvtepi32_ps (mm_cvtps_epi32 input);
             is_positive = mm_cmplt_ps integer_part input;
             bias = mm_cvtepi32_ps is_positive;
             integer_part = mm_sub_ps integer_part bias
         in mm_or_ps (mm_and_ps use_original_input input) (mm_andnot_ps use_original_input integer_part))
      else vector_set (scalar_ceil ext (vector_get_x b input)) (scalar_ceil ext (vector_get_y b input))
                      (scalar_ceil ext (vector_get_z b input)) (scalar_ceil ext (vector_get_w b input)))"

definition vector_floor :: "externals \<Rightarrow> backend \<Rightarrow> vector4f \<Rightarrow> vector4f" where
  "vector_floor ext b input =
     (if sse4_intrinsics b then mm_floor_ps input
      else if sse2_intrinsics b then
        (let fractional_limit = mm_set_ps1 float_2p23;
             abs_input = mm_and_ps input abs_mask;
             is_input_large = mm_cmpge_ps abs_input fractional_limit;
             is_nan = mm_cmpneq_ps input input;
             use_original_input = mm_or_ps is_input_large is_nan;
             integer_part = mm_cvtepi32_ps (mm_cvtps_epi32 input);
             is_negative = mm_cmpgt_ps integer_part input;
             bias = mm_cvtepi32_ps is_negative;
             integer_part = mm_add_ps integer_part bias
         in mm_or_ps (mm_and_ps use_original_input input) (mm_andnot_ps use_original_input integer_part))
      else vector_set (scalar_floor ext (vector_get_x b input)) (scalar_floor ext (vector_get_y b input))
                      (scalar_floor ext (vector_get_z b input)) (scalar_floor ext (vector_get_w b input)))"

subsection \<open>Comparisons and masking\<close>

definition vector_equal :: "backend \<Rightarrow> vector4f \<Rightarrow> vector4f \<Rightarrow> mask4i" where
  "vector_equal b lhs rhs =
     (if sse2_intrinsics b then mm_cmpeq_ps lhs rhs
      else if neon_intrinsics b then vceqq_f32 lhs rhs
      else \<lparr>lane_x = get_mask_value (feq (lane_x lhs) (lane_x rhs)),
            lane_y = get_mask_value (feq (lane_y lhs) (lane_y rhs)),
            lane_z = get_mask_value (feq (lane_z lhs) (lane_z rhs)),
            lane_w = get_mask_value (feq (lane_w lhs) (lane_w rhs))\<rparr>)"

definition vector_greater_equal :: "backend \<Rightarrow> vector4f \<Rightarrow> vector4f \<Rightarrow> mask4i" where
  "vector_greater_equal b lhs rhs =
     (if sse2_intrinsics b then mm_cmpge_ps lhs rhs
      else if neon_intrinsics b then vcgeq_f32 lhs rhs
      else \<lparr>lane_x = get_mask_value (fge (lane_x lhs) (lane_x rhs)),
            lane_y = get_mask_value (fge (lane_y lhs) (lane_y rhs)),
            lane_z = get_mask_value (fge (lane_z lhs) (lane_z rhs)),
            lane_w = get_mask_value (fge (lane_w lhs) (lane_w rhs))\<rparr>)"

text \<open>
  The mask word of the NEON reductions: after the two zips, lane 0 of \<open>val[0]\<close> holds the
  low bytes of the mask lanes x, z, y, w, from the lowest byte up.
\<close>

definition neon_mask_word :: "mask4i \<Rightarrow> 32 word" where
  "neon_mask_word msk =
     (let mask_0_8_1_9 = vzip_u8 (vget_low_u8 msk) (vget_high_u8 msk);
          mask_0_8_4_12 = vzip_u16 (fst mask_0_8_1_9) (snd mask_0_8_1_9)
      in vget_lane_u32 (fst mask_0_8_4_12) 0)"

definition vector_all_less_than3 :: "backend \<Rightarrow> vector4f \<Rightarrow> vector4f \<Rightarrow> bool" where
  "vector_all_less_than3 b lhs rhs =
     (if sse2_intrinsics b then (mm_movemask_ps (mm_cmplt_ps lhs rhs) AND 0x7) = 0x7
      else if neon_intrinsics b then (neon_mask_word (vcltq_f32 lhs rhs) AND 0x00FFFFFF) = 0x00FFFFFF
      else flt (lane_x lhs) (lane_x rhs) \<and> flt (lane_y lhs) (lane_y rhs) \<and> flt (lane_z lhs) (lane_z rhs))"

definition vector_any_less_than3 :: "backend \<Rightarrow> vector4f \<Rightarrow> vector4f \<Rightarrow> bool" where
  "vector_any_less_than3 b lhs rhs =
     (if sse2_intrinsics b then (mm_movemask_ps (mm_cmplt_ps lhs rhs) AND 0x7) \<noteq> 0
      else if neon_intrinsics b then (neon_mask_word (vcltq_f32 lhs rhs) AND 0x00FFFFFF) \<noteq> 0
      else flt (lane_x lhs) (lane_x rhs) \<or> flt (lane_y lhs) (lane_y rhs) \<or> flt (lane_z lhs) (lane_z rhs))"

definition vector_select :: "backend \<Rightarrow> mask4i \<Rightarrow> vector4f \<Rightarrow> vector4f \<Rightarrow> vector4f" where
  "vector_select b msk if_true if_false =
     (if avx_intrinsics b then mm_blendv_ps if_false if_true msk
      else if sse2_intrinsics b then mm_or_ps (mm_andnot_ps msk if_false) (mm_and_ps if_true msk)
      else if neon_intrinsics b then vbslq_f32 msk if_true if_false
      else \<lparr>lane_x = select_lane (lane_x msk) (lane_x if_true) (lane_x if_false),
            lane_y = select_lane (lane_y msk) (lane_y if_true) (lane_y if_false),
            lane_z = select_lane (lane_z msk) (lane_z if_true) (lane_z if_false),
            lane_w = select_lane (lane_w msk) (lane_w if_true) (lane_w if_false)\<rparr>)"

subsection \<open>Miscellaneous\<close>

text \<open>The float constants of the source, as bit patterns.\<close>

definition float_one :: lane where
  "float_one = 0x3F800000"

definition float_minus_one :: lane where
  "float_minus_one = 0xBF800000"

definition float_minus_zero :: lane where
  "float_minus_zero = 0x80000000"

definition vector_sign :: "backend \<Rightarrow> vector4f \<Rightarrow> vector4f" where
  "vector_sign b input =
     (if sse2_intrinsics b then
        (let signs = mm_set_ps1 float_minus_zero;
             one = mm_set_ps1 float_one;
             sign_bits = mm_and_ps input signs
         in mm_or_ps sign_bits one)
      else
        (let msk = vector_greater_equal b input vector_zero
         in vector_select b msk (vector_set1 float_one) (vector_set1 float_minus_one)))"

subsection \<open>Dot product\<close>

text \<open>
  The three conversion operators of \<open>rtm_impl::vector4f_vector_dot\<close>.  The branch
  \<open>RTM_SSE4_INTRINSICS && 0\<close> is disabled in the source.  \<open>operator scalarf\<close> exists on the
  SSE2 builds only, where a \<open>scalarf\<close> wraps a register whose lane x is the value: a
  \<open>scalarf\<close> is modelled by that lane.  On the other builds \<open>scalarf\<close> is \<open>float\<close>, so that
  \<open>scalarf result = *this\<close> in \<open>operator vector4f\<close> goes through \<open>operator float\<close>.
\<close>

definition vector4f_vector_dot_float :: "backend \<Rightarrow> vector4f \<Rightarrow> vector4f \<Rightarrow> lane" where
  "vector4f_vector_dot_float b lhs rhs =
     (if sse2_intrinsics b then
        (let x2_y2_z2_w2 = mm_mul_ps lhs rhs;
             z2_w2_0_0 = mm_shuffle_ps x2_y2_z2_w2 x2_y2_z2_w2 0 0 3 2;
             x2z2_y2w2_0_0 = mm_add_ps x2_y2_z2_w2 z2_w2_0_0;
             y2w2_0_0_0 = mm_shuffle_ps x2z2_y2w2_0_0 x2z2_y2w2_0_0 0 0 0 1;
             x2y2z2w2_0_0_0 = mm_add_ps x2z2_y2w2_0_0 y2w2_0_0_0
         in mm_cvtss_f32 x2y2z2w2_0_0_0)
      else fadd (fadd (fadd (fmul (vector_get_x b lhs) (vector_get_x b rhs))
                            (fmul (vector_get_y b lhs) (vector_get_y b rhs)))
                      (fmul (vector_get_z b lhs) (vector_get_z b rhs)))
                (fmul (vector_get_w b lhs) (vector_get_w b rhs)))"

definition vector4f_vector_dot_scalarf :: "vector4f \<Rightarrow> vector4f \<Rightarrow> lane" where
  "vector4f_vector_dot_scalarf lhs rhs =
     (let x2_y2_z2_w2 = mm_mul_ps lhs rhs;
          z2_w2_0_0 = mm_shuffle_ps x2_y2_z2_w2 x2_y2_z2_w2 0 0 3 2;
          x2z2_y2w2_0_0 = mm_add_ps x2_y2_z2_w2 z2_w2_0_0;
          y2w2_0_0_0 = mm_shuffle_ps x2z2_y2w2_0_0 x2z2_y2w2_0_0 0 0 0 1;
          x2y2z2w2_0_0_0 = mm_add_ps x2z2_y2w2_0_0 y2w2_0_0_0
      in mm_cvtss_f32 x2y2z2w2_0_0_0)"

definition vector4f_vector_dot_vector4f :: "backend \<Rightarrow> vector4f \<Rightarrow> vector4f \<Rightarrow> vector4f" where
  "vector4f_vector_dot_vector4f b lhs rhs =
     (if sse2_intrinsics b then
        (let x2_y2_z2_w2 = mm_mul_ps lhs rhs;
             z2_w2_0_0 = mm_shuffle_ps x2_y2_z2_w2 x2_y2_z2_w2 0 0 3 2;
             x2z2_y2w2_0_0 = mm_add_ps x2_y2_z2_w2 z2_w2_0_0;
             y2w2_0_0_0 = mm_shuffle_ps x2z2_y2w2_0_0 x2z2_y2w2_0_0 0 0 0 1;
             x2y2z2w2_0_0_0 = mm_add_ps x2z2_y2w2_0_0 y2w2_0_0_0
         in mm_shuffle_ps x2y2z2w2_0_0_0 x2y2z2w2_0_0_0 0 0 0 0)
      else if neon_intrinsics b then
        (let x2_y2_z2_w2 = vmulq_f32 lhs rhs;
             x2_y2 = vget_low_f32 x2_y2_z2_w2;
             z2_w2 = vget_high_f32 x2_y2_z2_w2;
             x2z2_y2w2 = vadd_f32 x2_y2 z2_w2;
             x2y2z2w2 = vpadd_f32 x2z2_y2w2 x2z2_y2w2
         in vcombine_f32 x2y2z2w2 x2y2z2w2)
      else
        (let result = vector4f_vector_dot_float b lhs rhs
         in vector_set1 result))"

subsection \<open>Fused operations and interpolation\<close>

text \<open>The overloads that take the factor \<open>s1\<close> as a \<open>float\<close>.\<close>

definition vector_mul_add_float :: "backend \<Rightarrow> vector4f \<Rightarrow> lane \<Rightarrow> vector4f \<Rightarrow> vector4f" where
  "vector_mul_add_float b v0 s1 v2 =
     (if neon64_intrinsics b then vfmaq_n_f32 v2 v0 s1
      else if neon_intrinsics b then vmlaq_n_f32 v2 v0 s1
      else vector_add b (vector_mul_float b v0 s1) v2)"

definition vector_neg_mul_sub_float :: "backend \<Rightarrow> vector4f \<Rightarrow> lane \<Rightarrow> vector4f \<Rightarrow> vector4f" where
  "vector_neg_mul_sub_float b v0 s1 v2 =
     (if neon64_intrinsics b then vfmsq_n_f32 v2 v0 s1
      else if neon_intrinsics b then vmlsq_n_f32 v2 v0 s1
      else vector_sub b v2 (vector_mul_float b v0 s1))"

text \<open>\<open>vector_lerp(start, end, float alpha)\<close>; the source's \<open>end\<close> is \<open>end_v\<close> here.\<close>

definition vector_lerp :: "backend \<Rightarrow> vector4f \<Rightarrow> vector4f \<Rightarrow> lane \<Rightarrow> vector4f" where
  "vector_lerp b start end_v alpha =
     vector_mul_add_float b end_v alpha (vector_neg_mul_sub_float b start alpha start)"

text \<open>A predicate that holds of all four lanes.\<close>

definition all_lanes :: "(lane \<Rightarrow> bool) \<Rightarrow> vector4f \<Rightarrow> bool" where
  "all_lanes P a = (P (lane_x a) \<and> P (lane_y a) \<and> P (lane_z a) \<and> P (lane_w a))"

subsection \<open>Rounding\<close>

definition vector_round_symmetric :: "externals \<Rightarrow> backend \<Rightarrow> vector4f \<Rightarrow> vector4f" where
  "vector_round_symmetric ext b input =
     (if sse4_intrinsics b then
        (let sign_mask = mm_set_ps float_minus_zero float_minus_zero float_minus_zero float_minus_zero;
             sign = mm_and_ps input sign_mask;
             bias = mm_or_ps sign (mm_set_ps1 float_half);
             biased_input = mm_add_ps input bias;
             floored = mm_floor_ps biased_input;
             ceiled = mm_ceil_ps biased_input;
             is_positive = mm_cmpge_ps input mm_setzero_ps
         in vector_select b is_positive floored ceiled)
      else if sse2_intrinsics b then
        (let fractional_limit = mm_set_ps1 float_2p23;
             abs_input = mm_and_ps input abs_mask;
             is_input_large = mm_cmpge_ps abs_input fractional_limit;
             is_nan = mm_cmpneq_ps input input;
             use_original_input = mm_or_ps is_input_large is_nan;
             sign_mask = mm_set_ps float_minus_zero float_minus_zero float_minus_zero float_minus_zero;
             sign = mm_and_ps input sign_mask;
             bias = mm_or_ps sign (mm_set_ps1 float_half);
             biased_input = mm_add_ps input bias;
             integer_part = mm_cvtepi32_ps (mm_cvttps_epi32 biased_input)
         in mm_or_ps (mm_and_ps use_original_input input) (mm_andnot_ps use_original_input integer_part))
      else
        (let half = vector_set1 float_half;
             floored = vector_floor ext b (vector_add b input half);
             ceiled = vector_ceil ext b (vector_sub b input half);
             is_greater_equal = vector_greater_equal b input vector_zero
         in vector_select b is_greater_equal floored ceiled))"

definition vector_round_bankers :: "externals \<Rightarrow> backend \<Rightarrow> vector4f \<Rightarrow> vector4f" where
  "vector_round_bankers ext b input =
     (if sse4_intrinsics b then mm_round_ps_nearest input
      else if sse2_intrinsics b then
        (let sign_mask = mm_set_ps float_minus_zero float_minus_zero float_minus_zero float_minus_zero;
             sign = mm_and_ps input sign_mask;
             fractional_limit = mm_set_ps1 float_2p23;
             truncating_offset = mm_or_ps sign fractional_limit;
             integer_part = mm_sub_ps (mm_add_ps input truncating_offset) truncating_offset;
             abs_input = mm_and_ps input abs_mask;
             is_input_large = mm_cmpge_ps abs_input fractional_limit
         in mm_or_ps (mm_and_ps is_input_large input) (mm_andnot_ps is_input_large integer_part))
      else vector_set (scalar_round_bankers ext (vector_get_x b input))
                      (scalar_round_bankers ext (vector_get_y b input))
                      (scalar_round_bankers ext (vector_get_z b input))
                      (scalar_round_bankers ext (vector_get_w b input)))"

subsection \<open>Three-component dot product, length and normalisation\<close>

text \<open>The conversion operators of \<open>rtm_impl::vector4f_vector_dot3\<close>.\<close>

definition vector4f_vector_dot3_float :: "backend \<Rightarrow> vector4f \<Rightarrow> vector4f \<Rightarrow> lane" where
  "vector4f_vector_dot3_float b lhs rhs =
     (if sse2_intrinsics b then
        (let x2_y2_z2_w2 = mm_mul_ps lhs rhs;
             y2_0_0_0 = mm_shuffle_ps x2_y2_z2_w2 x2_y2_z2_w2 0 0 0 1;
             x2y2_0_0_0 = mm_add_ss x2_y2_z2_w2 y2_0_0_0;
             z2_0_0_0 = mm_shuffle_ps x2_y2_z2_w2 x2_y2_z2_w2 0 0 0 2;
             x2y2z2_0_0_0 = mm_add_ss x2y2_0_0_0 z2_0_0_0
         in mm_cvtss_f32 x2y2z2_0_0_0)
      else if neon_intrinsics b then
        (let x2_y2_z2_w2 = vmulq_f32 lhs rhs;
             x2_y2 = vget_low_f32 x2_y2_z2_w2;
             z2_w2 = vget_high_f32 x2_y2_z2_w2;
             x2y2_x2y2 = vpadd_f32 x2_y2 x2_y2;
             z2_z2 = vdup_lane_f32 z2_w2 0;
             x2y2z2_x2y2z2 = vadd_f32 x2y2_x2y2 z2_z2
         in vget_lane_f32 x2y2z2_x2y2z2 0)
      else fadd (fadd (fmul (vector_get_x b lhs) (vector_get_x b rhs))
                      (fmul (vector_get_y b lhs) (vector_get_y b rhs)))
                (fmul (vector_get_z b lhs) (vector_get_z b rhs)))"

definition vector4f_vector_dot3_scalarf :: "vector4f \<Rightarrow> vector4f \<Rightarrow> lane" where
  "vector4f_vector_dot3_scalarf lhs rhs =
     (let x2_y2_z2_w2 = mm_mul_ps lhs rhs;
          y2_0_0_0 = mm_shuffle_ps x2_y2_z2_w2 x2_y2_z2_w2 0 0 0 1;
          x2y2_0_0_0 = mm_add_ss x2_y2_z2_w2 y2_0_0_0;
          z2_0_0_0 = mm_shuffle_ps x2_y2_z2_w2 x2_y2_z2_w2 0 0 0 2
      in mm_cvtss_f32 (mm_add_ss x2y2_0_0_0 z2_0_0_0))"

text \<open>
  \<open>const scalarf len_sq = vector_length_squared3(input)\<close>: the wrapper
  \<open>vector4f_vector_dot3{ input, input }\<close> converted to \<open>scalarf\<close>, through \<open>operator scalarf\<close>
  on the SSE2 builds and through \<open>operator float\<close> on the others.
\<close>

definition vector_length_squared3 :: "backend \<Rightarrow> vector4f \<Rightarrow> lane" where
  "vector_length_squared3 b input =
     (if sse2_intrinsics b then vector4f_vector_dot3_scalarf input input
      else vector4f_vector_dot3_float b input input)"

text \<open>
  The safe overload of \<open>vector_normalize3\<close>.  \<open>scalar_cast\<close> reads the value of a
  \<open>scalarf\<close>; the product is \<open>vector_mul(vector4f, scalarf)\<close> on the SSE2 builds and
  \<open>vector_mul(vector4f, float)\<close> on the others.  The default threshold \<open>1.0E-8F\<close> is
  \<open>default_threshold\<close>.
\<close>

definition default_threshold :: lane where
  "default_threshold = 0x322BCC77"

definition vector_normalize3 :: "externals \<Rightarrow> backend \<Rightarrow> vector4f \<Rightarrow> vector4f \<Rightarrow> lane \<Rightarrow> vector4f" where
  "vector_normalize3 ext b input fallback threshold =
     (let len_sq = vector_length_squared3 b input
      in if fge len_sq threshold
         then (if sse2_intrinsics b then vector_mul_scalarf input (scalar_sqrt_reciprocal ext len_sq)
               else vector_mul_float b input (scalar_sqrt_reciprocal ext len_sq))
         else fallback)"

subsection \<open>Sign copying and reciprocal\<close>

definition float_infinity :: lane where
  "float_infinity = 0x7F800000"

text \<open>\<open>std::copysign\<close>: the magnitude of the first argument with the sign bit of the second.\<close>

definition copysign :: "lane \<Rightarrow> lane \<Rightarrow> lane" where
  "copysign a s = (a AND 0x7FFFFFFF) OR (s AND 0x80000000)"

definition vector_copy_sign :: "backend \<Rightarrow> vector4f \<Rightarrow> vector4f \<Rightarrow> vector4f" where
  "vector_copy_sign b input control_sign =
     (if sse2_intrinsics b then
        (let sign_bit = mm_set_ps1 float_minus_zero;
             signs = mm_and_ps sign_bit control_sign;
             abs_input = mm_andnot_ps sign_bit input
         in mm_or_ps abs_input signs)
      else vector_set (copysign (vector_get_x b input) (vector_get_x b control_sign))
                      (copysign (vector_get_y b input) (vector_get_y b control_sign))
                      (copysign (vector_get_z b input) (vector_get_z b control_sign))
                      (copysign (vector_get_w b input) (vector_get_w b control_sign)))"

definition vector_reciprocal :: "externals \<Rightarrow> backend \<Rightarrow> vector4f \<Rightarrow> vector4f" where
  "vector_reciprocal ext b input =
     (if sse2_intrinsics b then
        (let x0 = mm_rcp_ps ext input;
             x1 = mm_sub_ps (mm_add_ps x0 x0) (mm_mul_ps input (mm_mul_ps x0 x0));
             x2 = mm_sub_ps (mm_add_ps x1 x1) (mm_mul_ps input (mm_mul_ps x1 x1))
         in x2)
      else if neon_intrinsics b then
        (let x0 = map_lanes (vrecpe_lane ext) input;
             x1 = vmulq_f32 x0 (zip_lanes (vrecps_lane ext) x0 input);
             x2 = vmulq_f32 x1 (zip_lanes (vrecps_lane ext) x1 input)
         in x2)
      else vector_div ext b (vector_set1 float_one) input)"

subsection \<open>Trigonometry\<close>

text \<open>
  The float literals of the source, as the bit patterns of the nearest binary32 values.
  \<open>1.0F / 6.283185307179586476925286766559005768F\<close> is the float quotient of \<open>1.0F\<close> and
  \<open>float_two_pi\<close>; \<open>0.933189452F * 1.68325555F\<close> is the float product of the two literals,
  which is \<open>float_half_pi\<close>.
\<close>

definition float_two_pi :: lane where
  "float_two_pi = 0x40C90FDB"

definition float_inv_two_pi :: lane where
  "float_inv_two_pi = 0x3E22F983"

definition float_pi :: lane where
  "float_pi = 0x40490FDB"

definition float_half_pi :: lane where
  "float_half_pi = 0x3FC90FDB"

text \<open>
  The polynomial of \<open>vector_sin\<close> in \<open>x2\<close>, in Horner form from the highest coefficient:
  \<open>-2.3828544692960918e-8\<close>, \<open>2.7521557770526783e-6\<close>, \<open>-1.9840782426250314e-4\<close>,
  \<open>8.3333303183525942e-3\<close>, \<open>-1.6666666601721269e-1\<close>, \<open>1.0\<close>.
\<close>

definition sin_polynomial :: "lane \<Rightarrow> lane" where
  "sin_polynomial x2 =
     (let result = fadd (fmul x2 0xB2CCAF86) 0x3638B1AD;
          result = fadd (fmul result x2) 0xB9500BB2;
          result = fadd (fmul result x2) 0x3C088885;
          result = fadd (fmul result x2) 0xBE2AAAAB;
          result = fadd (fmul result x2) float_one
      in result)"

text \<open>
  The polynomial of \<open>vector_cos\<close>: \<open>-2.6051615464872668e-7\<close>, \<open>2.4760495088926859e-5\<close>,
  \<open>-1.3888377661039897e-3\<close>, \<open>4.1666638865338612e-2\<close>, \<open>-4.9999999508695869e-1\<close>, \<open>1.0\<close>.
\<close>

definition cos_polynomial :: "lane \<Rightarrow> lane" where
  "cos_polynomial x2 =
     (let result = fadd (fmul x2 0xB48BDD11) 0x37CFB4C2;
          result = fadd (fmul result x2) 0xBAB609AA;
          result = fadd (fmul result x2) 0x3D2AAAA3;
          result = fadd (fmul result x2) 0xBF000000;
          result = fadd (fmul result x2) float_one
      in result)"

text \<open>
  \<open>vector_sin\<close> and \<open>vector_cos\<close>.  The SSE2 path is written out in the source with
  intrinsics; the AVX build selects with \<open>_mm_blendv_ps\<close>, the others with and/andnot/or.
\<close>

definition vector_sin :: "externals \<Rightarrow> backend \<Rightarrow> vector4f \<Rightarrow> vector4f" where
  "vector_sin ext b input =
     (if sse2_intrinsics b then
        (let quotient = mm_mul_ps input (mm_set_ps1 float_inv_two_pi);
             quotient = vector_round_bankers ext b quotient;
             quotient = mm_mul_ps quotient (mm_set_ps1 float_two_pi);
             x = mm_sub_ps input quotient;
             sign_mask = mm_set_ps float_minus_zero float_minus_zero float_minus_zero float_minus_zero;
             sign = mm_and_ps x sign_mask;
             reference = mm_or_ps sign (mm_set_ps1 float_pi);
             reflection = mm_sub_ps reference x;
             x_abs = mm_and_ps x abs_mask;
             is_less_equal_than_half_pi = mm_cmple_ps x_abs (mm_set_ps1 float_half_pi);
             x = (if avx_intrinsics b then mm_blendv_ps reflection x is_less_equal_than_half_pi
                  else mm_or_ps (mm_andnot_ps is_less_equal_than_half_pi reflection)
                                (mm_and_ps x is_less_equal_than_half_pi));
             x2 = mm_mul_ps x x;
             result = map_lanes sin_polynomial x2;
             result = mm_mul_ps result x
         in result)
      else vector_set (scalar_sin ext (vector_get_x b input)) (scalar_sin ext (vector_get_y b input))
                      (scalar_sin ext (vector_get_z b input)) (scalar_sin ext (vector_get_w b input)))"

definition vector_cos :: "externals \<Rightarrow> backend \<Rightarrow> vector4f \<Rightarrow> vector4f" where
  "vector_cos ext b input =
     (if sse2_intrinsics b then
        (let quotient = mm_mul_ps input (mm_set_ps1 float_inv_two_pi);
             quotient = vector_round_bankers ext b quotient;
             quotient = mm_mul_ps quotient (mm_set_ps1 float_two_pi);
             x = mm_sub_ps input quotient;
             sign_mask = mm_set_ps float_minus_zero float_minus_zero float_minus_zero float_minus_zero;
             x_sign = mm_and_ps x sign_mask;
             reference = mm_or_ps x_sign (mm_set_ps1 float_pi);
             reflection = mm_sub_ps reference x;
             x_abs = mm_and_ps x abs_mask;
             is_less_equal_than_half_pi = mm_cmple_ps x_abs (mm_set_ps1 float_half_pi);
             x = (if avx_intrinsics b then mm_blendv_ps reflection x is_less_equal_than_half_pi
                  else mm_or_ps (mm_andnot_ps is_less_equal_than_half_pi reflection)
                                (mm_and_ps x is_less_equal_than_half_pi));
             x2 = mm_mul_ps x x;
             result = map_lanes cos_polynomial x2
         in mm_or_ps result (mm_andnot_ps is_less_equal_than_half_pi sign_mask))
      else vector_set (scalar_cos ext (vector_get_x b input)) (scalar_cos ext (vector_get_y b input))
                      (scalar_cos ext (vector_get_z b input)) (scalar_cos ext (vector_get_w b input)))"

text \<open>\<open>vector_tan\<close>; the source's \<open>sin_\<close> and \<open>cos_\<close> are \<open>sin_v\<close> and \<open>cos_v\<close> here.\<close>

definition vector_tan :: "externals \<Rightarrow> backend \<Rightarrow> vector4f \<Rightarrow> vector4f" where
  "vector_tan ext b angle =
     (let sin_v = vector_sin ext b angle;
          cos_v = vector_cos ext b angle;
          is_cos_zero = vector_equal b cos_v vector_zero;
          signed_infinity = vector_copy_sign b (vector_set1 float_infinity) angle;
          result = vector_div ext b sin_v cos_v
      in vector_select b is_cos_zero signed_infinity result)"

text \<open>
  The polynomial of \<open>vector_atan\<close>: \<open>7.2128853633444123e-3\<close>, \<open>-3.5059680836411644e-2\<close>,
  \<open>8.1675882859940430e-2\<close>, \<open>-1.3374657325451267e-1\<close>, \<open>1.9856563505717162e-1\<close>,
  \<open>-3.3324998579202170e-1\<close>, \<open>1.0\<close>.
\<close>

definition atan_polynomial :: "lane \<Rightarrow> lane" where
  "atan_polynomial x2 =
     (let result = fadd (fmul x2 0x3BEC5A11) 0xBD0F9ABD;
          result = fadd (fmul result x2) 0x3DA745AF;
          result = fadd (fmul result x2) 0xBE08F4DD;
          result = fadd (fmul result x2) 0x3E4B54CA;
          result = fadd (fmul result x2) 0xBEAA9FBE;
          result = fadd (fmul result x2) float_one
      in result)"

definition vector_atan :: "externals \<Rightarrow> backend \<Rightarrow> vector4f \<Rightarrow> vector4f" where
  "vector_atan ext b input =
     (if sse2_intrinsics b then
        (let abs_value = mm_and_ps input abs_mask;
             is_larger_than_one = mm_cmpgt_ps abs_value (mm_set_ps1 float_one);
             reciprocal = vector_reciprocal ext b abs_value;
             x = vector_select b is_larger_than_one reciprocal abs_value;
             x2 = mm_mul_ps x x;
             result = map_lanes atan_polynomial x2;
             result = mm_mul_ps result x;
             remapped = mm_sub_ps (mm_set_ps1 float_half_pi) result;
             result = vector_select b is_larger_than_one remapped result
         in mm_or_ps result (mm_and_ps input (mm_set_ps1 float_minus_zero)))
      else vector_set (scalar_atan ext (vector_get_x b input)) (scalar_atan ext (vector_get_y b input))
                      (scalar_atan ext (vector_get_z b input)) (scalar_atan ext (vector_get_w b input)))"

definition vector_atan2 :: "externals \<Rightarrow> backend \<Rightarrow> vector4f \<Rightarrow> vector4f \<Rightarrow> vector4f" where
  "vector_atan2 ext b y x =
     (if sse2_intrinsics b then
        (let zero = mm_setzero_ps;
             is_x_zero = mm_cmpeq_ps x zero;
             is_y_zero = mm_cmpeq_ps y zero;
             inputs_are_zero = mm_and_ps is_x_zero is_y_zero;
             is_x_positive = mm_cmpgt_ps x zero;
             sign_mask = mm_set_ps float_minus_zero float_minus_zero float_minus_zero float_minus_zero;
             y_sign = mm_and_ps y sign_mask;
             half_pi = mm_set_ps1 float_half_pi;
             pi = mm_set_ps1 float_pi;
             offset = mm_or_ps (mm_and_ps is_x_zero half_pi) (mm_andnot_ps is_x_zero pi);
             offset = mm_or_ps offset y_sign;
             offset = mm_andnot_ps is_x_positive offset;
             offset = mm_andnot_ps inputs_are_zero offset;
             angle = mm_div_ps y x;
             value = vector_atan ext b angle;
             value = mm_or_ps (mm_and_ps is_x_zero zero) (mm_andnot_ps is_x_zero value);
             value = mm_andnot_ps inputs_are_zero value
         in mm_add_ps value offset)
      else vector_set (scalar_atan2 ext (vector_get_x b y) (vector_get_x b x))
                      (scalar_atan2 ext (vector_get_y b y) (vector_get_y b x))
                      (scalar_atan2 ext (vector_get_z b y) (vector_get_z b x))
                      (scalar_atan2 ext (vector_get_w b y) (vector_get_w b x)))"

text \<open>
  Modelled from the spec: \<open>scalar_atan2\<close> of \<open>rtm/scalarf.h\<close>, which the path of
  \<open>vector_atan2\<close> without SSE2 calls for every lane and which is not among the sources.
  The specification takes the scalar kernels as the one-lane equivalents of the vector
  operations, and gives \<open>atan2(y, x)\<close> as: \<open>0\<close> when both inputs are zero; \<open>pi/2\<close> with
  the sign of \<open>y\<close> when \<open>x\<close> is zero and \<open>y\<close> is not; otherwise \<open>atan(y/x)\<close> offset by
  \<open>0\<close> (\<open>x > 0\<close>) or by \<open>pi\<close> with the sign of \<open>y\<close> (\<open>x < 0\<close>).  The arc tangent is the
  kernel \<open>scalar_atan\<close>, which stays a parameter.  An \<open>x\<close> that is NaN, of which the
  specification says nothing, takes the last case.
\<close>

definition scalar_atan2_spec :: "(lane \<Rightarrow> lane) \<Rightarrow> lane \<Rightarrow> lane \<Rightarrow> lane" where
  "scalar_atan2_spec atan_kernel y x =
     (if feq x 0 then (if feq y 0 then 0 else copysign float_half_pi y)
      else fadd (atan_kernel (fdiv y x)) (if fgt x 0 then 0 else copysign float_pi y))"

subsection \<open>The algorithm of sine and cosine, step by step\<close>

text \<open>
  The SSE2 paths of \<open>vector_sin\<close> and \<open>vector_cos\<close>, written for one lane.  \<open>rb\<close> is the
  rounding of one lane by \<open>vector_round_bankers\<close> on the build at hand,
  \<open>round_bankers_lane\<close>.

  First the reduction: the source multiplies the input by the float constant \<open>1.0F / 2pi\<close>,
  rounds, multiplies by the float \<open>2pi\<close> and subtracts the product from the input.
\<close>

definition round_bankers_lane :: "externals \<Rightarrow> backend \<Rightarrow> lane \<Rightarrow> lane" where
  "round_bankers_lane ext b a = lane_x (vector_round_bankers ext b (vector_set1 a))"

definition range_reduction :: "(lane \<Rightarrow> lane) \<Rightarrow> lane \<Rightarrow> lane" where
  "range_reduction rb a = fsub a (fmul (rb (fmul a float_inv_two_pi)) float_two_pi)"

text \<open>
  Then the reflection \<open>pi * sign(x) - x\<close> of a reduced value whose magnitude is not
  \<open><= pi/2\<close> (a NaN is not).
\<close>

definition is_reflected :: "lane \<Rightarrow> bool" where
  "is_reflected r = (\<not> fle (fabs r) float_half_pi)"

definition reflection :: "lane \<Rightarrow> lane" where
  "reflection r = (if is_reflected r then fsub (copysign float_pi r) r else r)"

text \<open>
  Finally the polynomial in the square of the reflected value, times the reflected value
  for the sine, and with the sign bit set on the reflected lanes for the cosine.
\<close>

definition sin_steps :: "(lane \<Rightarrow> lane) \<Rightarrow> lane \<Rightarrow> lane" where
  "sin_steps rb a =
     (let x = reflection (range_reduction rb a)
      in fmul (sin_polynomial (fmul x x)) x)"

definition cos_steps :: "(lane \<Rightarrow> lane) \<Rightarrow> lane \<Rightarrow> lane" where
  "cos_steps rb a =
     (let r = range_reduction rb a;
          x = reflection r
      in if is_reflected r then cos_polynomial (fmul x x) OR float_minus_zero
         else cos_polynomial (fmul x x))"

section \<open>Facts about the lane arithmetic\<close>

lemma unat_lt32: "unat (a::lane) < 4294967296"
  using unsigned_less [of a] by simp

lemma unat_split: "unat (a::lane) = (if sign_bit a then 2147483648 else 0) + magnitude a"
proof (cases "sign_bit a")
  case True
  then have ge: "2147483648 \<le> unat a" by (simp add: sign_bit_def)
  have "unat a mod 2147483648 = (unat a - 2147483648) mod 2147483648"
    using ge by (rule le_mod_geq)
  also have "\<dots> = unat a - 2147483648"
    using unat_lt32 [of a] by (intro mod_less) linarith
  finally show ?thesis using True ge by (simp add: magnitude_def)
next
  case False
  then show ?thesis by (simp add: sign_bit_def magnitude_def)
qed

lemma pack_unpack: "pack (sign_bit a) (magnitude a) = a"
proof -
  have "pack (sign_bit a) (magnitude a) = word_of_nat (unat a)"
    unfolding pack_def using unat_split [of a] by (simp split: if_splits)
  then show ?thesis by simp
qed

lemma unat_pack: "n < 2147483648 \<Longrightarrow> unat (pack s n) = (if s then 2147483648 + n else n)"
  unfolding pack_def by (simp add: unat_of_nat take_bit_nat_eq_self)

lemma sign_bit_pack: "n < 2147483648 \<Longrightarrow> sign_bit (pack s n) = s"
  by (simp add: sign_bit_def unat_pack)

lemma magnitude_pack: "n < 2147483648 \<Longrightarrow> magnitude (pack s n) = n"
  by (simp add: magnitude_def unat_pack)

lemma lane_eqI:
  assumes "sign_bit a = sign_bit b" and "magnitude a = magnitude b"
  shows "a = b"
proof -
  have "pack (sign_bit a) (magnitude a) = pack (sign_bit b) (magnitude b)"
    by (simp only: assms)
  then show ?thesis by (simp only: pack_unpack)
qed

lemma sign_bit_iff_bit: "sign_bit a = bit a 31"
proof -
  have "bit a 31 = bit (unat a) 31"
    by (simp add: bit_unsigned_iff)
  also have "\<dots> = odd (unat a div 2147483648)"
    by (simp add: bit_iff_odd)
  also have "\<dots> = (2147483648 \<le> unat a)"
  proof (cases "2147483648 \<le> unat a")
    case True
    then have "unat a div 2147483648 = 1"
      using unat_lt32 [of a] by (intro div_nat_eqI) simp_all
    then show ?thesis using True by simp
  next
    case False
    then show ?thesis by simp
  qed
  finally show ?thesis by (simp add: sign_bit_def)
qed

lemma unat_and_abs: "unat (a AND 0x7FFFFFFF) = magnitude a" for a :: lane
proof -
  have "a AND 0x7FFFFFFF = take_bit 31 a"
    by (simp add: take_bit_eq_mask mask_eq_exp_minus_1)
  moreover have "unat (take_bit 31 a) = take_bit 31 (unat a)"
    by (rule unsigned_take_bit_eq)
  ultimately show ?thesis
    by (simp add: magnitude_def take_bit_eq_mod)
qed

lemma bit_sign_mask: "bit (0x80000000 :: lane) n \<longleftrightarrow> n = 31"
proof -
  have "(0x80000000 :: lane) = 2 ^ 31" by simp
  then have "bit (0x80000000 :: lane) n = bit (2 ^ 31 :: lane) n" by (simp only:)
  also have "\<dots> = (n = 31)" by (auto simp only: bit_exp_iff possible_bit_word) simp_all
  finally show ?thesis .
qed

lemma bit_int_2p31: "bit (2147483648 :: int) n \<longleftrightarrow> n = 31"
proof -
  have "(2147483648 :: int) = 2 ^ 31" by simp
  then have "bit (2147483648 :: int) n = bit (2 ^ 31 :: int) n" by (simp only:)
  also have "\<dots> = (n = 31)" by (auto simp only: bit_exp_iff) simp_all
  finally show ?thesis .
qed

lemma bit_int_mask31: "bit (2147483647 :: int) n \<longleftrightarrow> n < 31"
proof -
  have "(2147483647 :: int) = mask 31" by (simp add: mask_eq_exp_minus_1)
  then have "bit (2147483647 :: int) n = bit (mask 31 :: int) n" by (simp only:)
  also have "\<dots> = (n < 31)" by (auto simp only: bit_mask_iff) simp_all
  finally show ?thesis .
qed

lemma and_sign_mask: "a AND 0x80000000 = (if sign_bit a then 0x80000000 else 0)" for a :: lane
  unfolding sign_bit_iff_bit
  by (rule bit_word_eqI) (auto simp: bit_and_iff bit_int_2p31)

lemma sign_bit_and_abs: "sign_bit (a AND 0x7FFFFFFF) = False"
  by (simp add: sign_bit_iff_bit bit_and_iff bit_int_mask31)

lemma magnitude_and_abs: "magnitude (a AND 0x7FFFFFFF) = magnitude a"
proof -
  have "magnitude (a AND 0x7FFFFFFF) = unat (a AND 0x7FFFFFFF) mod 2147483648"
    by (simp add: magnitude_def)
  also have "\<dots> = magnitude a"
    by (simp only: unat_and_abs) (simp add: magnitude_def)
  finally show ?thesis .
qed

lemma not_sign_mask: "NOT (0x80000000 :: lane) = 0x7FFFFFFF"
  by simp

lemma andnot_sign_mask: "NOT (0x80000000 :: lane) AND a = a AND 0x7FFFFFFF"
  by (simp only: not_sign_mask and.commute)

lemma sign_bit_xor: "sign_bit (a XOR 0x80000000) = (\<not> sign_bit a)"
  by (simp add: sign_bit_iff_bit bit_xor_iff bit_int_2p31)

lemma xor_and_abs: "(a XOR 0x80000000) AND 0x7FFFFFFF = a AND 0x7FFFFFFF" for a :: lane
  by (rule bit_word_eqI) (auto simp: bit_and_iff bit_xor_iff bit_int_2p31 bit_int_mask31)

lemma magnitude_xor: "magnitude (a XOR 0x80000000) = magnitude a"
  using magnitude_and_abs [of "a XOR 0x80000000"] magnitude_and_abs [of a]
  by (simp only: xor_and_abs)

lemma bitlen_0 [simp]: "bitlen 0 = 0"
  by (simp add: bitlen.simps)

lemma bitlen_double: "0 < m \<Longrightarrow> bitlen (2 * m) = Suc (bitlen m)"
  by (subst bitlen.simps) simp

lemma bitlen_shift: "0 < m \<Longrightarrow> bitlen (m * 2 ^ k) = bitlen m + k"
proof (induction k)
  case 0
  then show ?case by simp
next
  case (Suc k)
  have "bitlen (m * 2 ^ Suc k) = bitlen (2 * (m * 2 ^ k))" by (simp add: mult.commute mult.left_commute)
  also have "\<dots> = Suc (bitlen (m * 2 ^ k))" using Suc.prems by (intro bitlen_double) simp
  finally show ?case using Suc by simp
qed

lemma bitlen_le: "m < 2 ^ k \<Longrightarrow> bitlen m \<le> k"
proof (induction k arbitrary: m)
  case 0
  then show ?case by simp
next
  case (Suc k)
  show ?case
  proof (cases "m = 0")
    case True
    then show ?thesis by simp
  next
    case False
    have "m div 2 < 2 ^ k" using Suc.prems by simp
    then have "bitlen (m div 2) \<le> k" by (rule Suc.IH)
    then show ?thesis using False by (subst bitlen.simps) simp
  qed
qed

lemma bitlen_gt: "2 ^ k \<le> m \<Longrightarrow> k < bitlen m"
proof (induction k arbitrary: m)
  case 0
  then show ?case by (subst bitlen.simps) simp
next
  case (Suc k)
  have "2 ^ k \<le> m div 2" using Suc.prems by simp
  then have "k < bitlen (m div 2)" by (rule Suc.IH)
  moreover have "m \<noteq> 0"
  proof
    assume "m = 0"
    then have "(2::nat) ^ Suc k \<le> 0" using Suc.prems by simp
    then show False by simp
  qed
  ultimately show ?case by (subst bitlen.simps) simp
qed

lemma bitlen_eq: "2 ^ k \<le> m \<Longrightarrow> m < 2 ^ Suc k \<Longrightarrow> bitlen m = Suc k"
  using bitlen_le [of m "Suc k"] bitlen_gt [of k m] by simp

lemma rne_exact: "rne (m * 2 ^ k) k = m"
  by (cases k) (simp_all add: rne_def)

lemma round_mag_exact:
  assumes m: "0 < m" "m < 2 ^ 24" and e: "- 149 \<le> e" "e \<le> 104"
    and canon: "2 ^ 23 \<le> m \<or> e = - 149"
  shows "round_mag (m * 2 ^ k) (e - int k) = nat (e + 149) * 2 ^ 23 + m"
proof -
  have bl: "bitlen (m * 2 ^ k) = bitlen m + k" using m(1) by (rule bitlen_shift)
  have te: "target_exp (m * 2 ^ k) (e - int k) = e"
  proof (cases "2 ^ 23 \<le> m")
    case True
    then have "bitlen m = 24" using m(2) bitlen_eq [of 23 m] by simp
    then show ?thesis using e by (simp add: target_exp_def bl)
  next
    case False
    then have "e = - 149" using canon by simp
    moreover have "bitlen m \<le> 23" using False by (intro bitlen_le) simp
    ultimately show ?thesis by (simp add: target_exp_def bl)
  qed
  have nk: "nat (e - (e - int k)) = k" by simp
  have body: "(if e \<le> e - int k then m * 2 ^ k * 2 ^ nat (e - int k - e)
               else rne (m * 2 ^ k) (nat (e - (e - int k)))) = m"
  proof (cases "k = 0")
    case True
    then show ?thesis by simp
  next
    case False
    then have "\<not> e \<le> e - int k" by simp
    then show ?thesis unfolding nk by (simp only: if_False rne_exact)
  qed
  have bound: "nat (e + 149) * 2 ^ 23 + m < 0x7F800000"
  proof -
    have "nat (e + 149) \<le> 253" using e by simp
    then have "nat (e + 149) * 2 ^ 23 \<le> 253 * 2 ^ 23" by (rule mult_le_mono1)
    then show ?thesis using m(2) by simp
  qed
  have nz: "m * 2 ^ k \<noteq> 0" using m(1) by simp
  show ?thesis
    unfolding round_mag_def te using nz body bound by simp
qed

lemma magnitude_lt: "magnitude a < 2147483648"
  by (simp add: magnitude_def)

lemma finite_not_nan: "is_finite a \<Longrightarrow> \<not> is_nan a"
  by (simp add: is_finite_def is_nan_def)

lemma finite_not_inf: "is_finite a \<Longrightarrow> \<not> is_inf a"
  by (simp add: is_finite_def is_inf_def)

lemma zero_finite: "is_zero a \<Longrightarrow> is_finite a"
  by (simp add: is_finite_def is_zero_def)

lemma fraction_lt: "fraction a < 8388608"
  by (simp add: fraction_def)

lemma magnitude_exp_frac: "magnitude a = biased_exp a * 8388608 + fraction a"
  by (simp add: biased_exp_def fraction_def)

lemma biased_exp_finite: "is_finite a \<Longrightarrow> biased_exp a < 255"
  unfolding is_finite_def biased_exp_def
  by (simp add: less_mult_imp_div_less)

lemma mant_lt: "mant a < 16777216"
  using fraction_lt [of a] by (simp add: mant_def)

lemma expo_ge: "- 149 \<le> expo a"
  by (simp add: expo_def)

lemma expo_le: "is_finite a \<Longrightarrow> expo a \<le> 104"
  using biased_exp_finite [of a] by (simp add: expo_def)

lemma mant_canonical: "8388608 \<le> mant a \<or> expo a = - 149"
  by (simp add: mant_def expo_def)

lemma mant_zero_iff: "mant a = 0 \<longleftrightarrow> is_zero a"
  using magnitude_exp_frac [of a] by (auto simp: mant_def is_zero_def)

lemma magnitude_decode: "magnitude a = nat (expo a + 149) * 8388608 + mant a"
proof (cases "biased_exp a = 0")
  case True
  then show ?thesis using magnitude_exp_frac [of a] by (simp add: mant_def expo_def)
next
  case False
  then obtain n where n: "biased_exp a = Suc n" by (cases "biased_exp a") simp_all
  have "nat (expo a + 149) = n" by (simp add: expo_def n)
  then show ?thesis using magnitude_exp_frac [of a] by (simp add: mant_def n)
qed

lemma round_mag_decode:
  assumes "is_finite a" and "\<not> is_zero a"
  shows "round_mag (mant a * 2 ^ k) (expo a - int k) = magnitude a"
proof -
  have "0 < mant a" using assms(2) mant_zero_iff [of a] by simp
  moreover have "mant a < 2 ^ 24" using mant_lt [of a] by simp
  moreover have "2 ^ 23 \<le> mant a \<or> expo a = - 149" using mant_canonical [of a] by simp
  ultimately have "round_mag (mant a * 2 ^ k) (expo a - int k) = nat (expo a + 149) * 2 ^ 23 + mant a"
    using expo_ge [of a] expo_le [OF assms(1)] by (intro round_mag_exact) simp_all
  then show ?thesis by (simp add: magnitude_decode [of a])
qed

lemma pack_False_0 [simp]: "pack False 0 = 0"
  by (simp add: pack_def)

lemma pack_True_0 [simp]: "pack True 0 = 0x80000000"
  by (simp add: pack_def)

lemma signed_int_0 [simp]: "signed_int s 0 = 0"
  by (simp add: signed_int_def)

lemma signed_int_eq_0 [simp]: "signed_int s m = 0 \<longleftrightarrow> m = 0"
  by (simp add: signed_int_def)

lemma signed_int_neg [simp]: "signed_int s m < 0 \<longleftrightarrow> s \<and> 0 < m"
  by (simp add: signed_int_def)

lemma signed_int_abs [simp]: "nat \<bar>signed_int s m\<bar> = m"
  by (simp add: signed_int_def)

lemma signed_int_cancel: "signed_int s m + signed_int (\<not> s) m = 0"
  by (simp add: signed_int_def)

lemma finite_sum_zeros: "finite_sum sa 0 ea sb 0 eb = pack (sa \<and> sb) 0"
  by (simp add: finite_sum_def exact_sum_def)

lemma finite_sum_zero_left:
  assumes "is_finite a" and "\<not> is_zero a"
  shows "finite_sum sz 0 ez (sign_bit a) (mant a * 2 ^ j) (expo a - int j) = a"
proof -
  define e where "e = min ez (expo a - int j)"
  define k where "k = nat (expo a - int j - e)"
  have pos: "0 < mant a" using assms(2) mant_zero_iff [of a] by simp
  have ek: "e = expo a - int (j + k)" unfolding k_def e_def by simp
  have sum: "exact_sum sz 0 ez (sign_bit a) (mant a * 2 ^ j) (expo a - int j)
      = signed_int (sign_bit a) (mant a * 2 ^ (j + k))"
    by (simp add: exact_sum_def k_def e_def power_add mult.assoc)
  have "finite_sum sz 0 ez (sign_bit a) (mant a * 2 ^ j) (expo a - int j)
      = pack (sign_bit a) (round_mag (mant a * 2 ^ (j + k)) e)"
    unfolding finite_sum_def sum using pos by (simp add: e_def)
  also have "\<dots> = pack (sign_bit a) (magnitude a)"
    unfolding ek by (simp only: round_mag_decode [OF assms])
  finally show ?thesis by (simp only: pack_unpack)
qed

lemma finite_sum_zero_right:
  assumes "is_finite a" and "\<not> is_zero a"
  shows "finite_sum (sign_bit a) (mant a * 2 ^ j) (expo a - int j) sz 0 ez = a"
proof -
  define e where "e = min (expo a - int j) ez"
  define k where "k = nat (expo a - int j - e)"
  have pos: "0 < mant a" using assms(2) mant_zero_iff [of a] by simp
  have ek: "e = expo a - int (j + k)" unfolding k_def e_def by simp
  have sum: "exact_sum (sign_bit a) (mant a * 2 ^ j) (expo a - int j) sz 0 ez
      = signed_int (sign_bit a) (mant a * 2 ^ (j + k))"
    by (simp add: exact_sum_def k_def e_def power_add mult.assoc)
  have "finite_sum (sign_bit a) (mant a * 2 ^ j) (expo a - int j) sz 0 ez
      = pack (sign_bit a) (round_mag (mant a * 2 ^ (j + k)) e)"
    unfolding finite_sum_def sum using pos by (simp add: e_def)
  also have "\<dots> = pack (sign_bit a) (magnitude a)"
    unfolding ek by (simp only: round_mag_decode [OF assms])
  finally show ?thesis by (simp only: pack_unpack)
qed

lemma finite_sum_cancel: "finite_sum s m e (\<not> s) (m * 2 ^ j) (e - int j) = 0"
proof -
  have "exact_sum s m e (\<not> s) (m * 2 ^ j) (e - int j) = 0"
    by (simp add: exact_sum_def signed_int_def min_def)
  then show ?thesis by (simp add: finite_sum_def)
qed

lemma zero_mant: "is_zero z \<Longrightarrow> mant z = 0"
  by (simp add: mant_zero_iff)

lemma zero_cases: "is_zero z \<Longrightarrow> z = 0 \<or> z = 0x80000000"
  using pack_unpack [of z] by (cases "sign_bit z") (simp_all add: is_zero_def)

lemma zero_eq_pack: "is_zero z \<Longrightarrow> z = pack (sign_bit z) 0"
  using pack_unpack [of z] by (simp add: is_zero_def)

lemma is_zero_pack_0 [simp]: "is_zero (pack s 0)"
  by (simp add: is_zero_def magnitude_pack)

lemma sign_bit_pack_0 [simp]: "sign_bit (pack s 0) = s"
  by (simp add: sign_bit_pack)

lemma fadd_zero_right: "is_finite a \<Longrightarrow> \<not> is_zero a \<Longrightarrow> is_zero z \<Longrightarrow> fadd a z = a"
  using finite_sum_zero_right [of a 0 "sign_bit z" "expo z"]
  by (simp add: fadd_def finite_not_nan finite_not_inf zero_finite zero_mant)

lemma fadd_zero_left: "is_finite a \<Longrightarrow> \<not> is_zero a \<Longrightarrow> is_zero z \<Longrightarrow> fadd z a = a"
  using finite_sum_zero_left [of a "sign_bit z" "expo z" 0]
  by (simp add: fadd_def finite_not_nan finite_not_inf zero_finite zero_mant)

lemma fadd_zeros: "is_zero a \<Longrightarrow> is_zero b \<Longrightarrow> fadd a b = pack (sign_bit a \<and> sign_bit b) 0"
  by (simp add: fadd_def finite_not_nan finite_not_inf zero_finite zero_mant finite_sum_zeros)

lemma fmul_zero_right: "is_finite a \<Longrightarrow> is_zero z \<Longrightarrow> fmul a z = pack (sign_bit a \<noteq> sign_bit z) 0"
  by (simp add: fmul_def finite_not_nan finite_not_inf zero_finite zero_mant round_mag_def)

lemma mant_one: "mant 0x3F800000 = 2 ^ 23"
  by (simp add: mant_def biased_exp_def fraction_def magnitude_def)

lemma expo_one: "expo 0x3F800000 = - 23"
  by (simp add: expo_def biased_exp_def magnitude_def)

lemma sign_bit_one: "sign_bit 0x3F800000 = False"
  by (simp add: sign_bit_def)

lemma finite_one: "is_finite 0x3F800000"
  by (simp add: is_finite_def magnitude_def)

lemma fmul_one_right: "is_finite a \<Longrightarrow> fmul a 0x3F800000 = a"
proof (cases "is_zero a")
  case True
  assume "is_finite a"
  then show ?thesis using True zero_eq_pack [OF True]
    by (simp add: fmul_def finite_not_nan finite_not_inf finite_one zero_mant round_mag_def sign_bit_one)
next
  case False
  assume fin: "is_finite a"
  have "round_mag (mant a * 2 ^ 23) (expo a - int 23) = magnitude a"
    using fin False by (rule round_mag_decode)
  then have "round_mag (mant a * mant 0x3F800000) (expo a + expo 0x3F800000) = magnitude a"
    by (simp add: mant_one expo_one)
  then show ?thesis using fin
    by (simp add: fmul_def finite_not_nan finite_not_inf finite_one sign_bit_one pack_unpack)
qed

section \<open>Facts about masks, lanes and evaluation\<close>

lemmas backend_flags = sse2_intrinsics_def sse4_intrinsics_def avx_intrinsics_def
  neon_intrinsics_def neon64_intrinsics_def

text \<open>
  The definitions that evaluate the lane arithmetic on numerals.  They are used with
  \<open>split del: if_split\<close>, so that a branch is only entered once its condition is decided.
\<close>

lemmas float_eval = fadd_def fsub_def fmul_def fdiv_def ffma_def finite_sum_def exact_sum_def signed_int_def
  is_nan_def is_inf_def is_zero_def is_finite_def sign_bit_def magnitude_def pack_def
  round_mag_def target_exp_def mant_def expo_def biased_exp_def fraction_def rne_def bitlen.simps
  quiet_def default_nan_def fneg_def fabs_def

lemmas cmp_eval = flt_def fle_def feq_def fge_def fgt_def is_nan_def order_key_def sign_bit_def magnitude_def

lemma all_ones: "(0xFFFFFFFF :: lane) = - 1"
  by simp

lemma bsl_mask_value:
  "(mask_value c AND a) OR (NOT (mask_value c) AND b) = (if c then a else b)"
  unfolding mask_value_def all_ones by simp

lemma sse_select_mask_value:
  "(NOT (mask_value c) AND b) OR (a AND mask_value c) = (if c then a else b)"
  unfolding mask_value_def all_ones by simp

lemma sign_bit_mask_value: "sign_bit (mask_value c) = c"
  by (simp add: mask_value_def sign_bit_def)

lemma mask_value_eq_0: "mask_value c \<noteq> 0 \<longleftrightarrow> c"
  by (simp add: mask_value_def)

subsection \<open>Mask reductions\<close>

lemma movemask_cmplt:
  "mm_movemask_ps (mm_cmplt_ps lhs rhs) =
     (if flt (lane_x lhs) (lane_x rhs) then 1 else 0) OR (if flt (lane_y lhs) (lane_y rhs) then 2 else 0) OR
     (if flt (lane_z lhs) (lane_z rhs) then 4 else 0) OR (if flt (lane_w lhs) (lane_w rhs) then 8 else 0)"
  by (simp add: mm_movemask_ps_def mm_cmplt_ps_def zip_lanes_def mask_value_def sign_bit_def)

lemma neon_mask_word_cmplt:
  "neon_mask_word (vcltq_f32 lhs rhs) =
     (if flt (lane_x lhs) (lane_x rhs) then 0xFF else 0) OR
     (if flt (lane_z lhs) (lane_z rhs) then 0xFF00 else 0) OR
     (if flt (lane_y lhs) (lane_y rhs) then 0xFF0000 else 0) OR
     (if flt (lane_w lhs) (lane_w rhs) then 0xFF000000 else 0)"
  by (simp add: neon_mask_word_def vcltq_f32_def zip_lanes_def mask_value_def vzip_u8_def vzip_u16_def
      vget_low_u8_def vget_high_u8_def register_bytes_def lane_bytes_def vget_lane_u32_def Let_def)

lemma all_less_than3_lanes:
  "vector_all_less_than3 b lhs rhs =
     (flt (lane_x lhs) (lane_x rhs) \<and> flt (lane_y lhs) (lane_y rhs) \<and> flt (lane_z lhs) (lane_z rhs))"
  by (simp add: vector_all_less_than3_def movemask_cmplt neon_mask_word_cmplt)

lemma any_less_than3_lanes:
  "vector_any_less_than3 b lhs rhs =
     (flt (lane_x lhs) (lane_x rhs) \<or> flt (lane_y lhs) (lane_y rhs) \<or> flt (lane_z lhs) (lane_z rhs))"
  by (simp add: vector_any_less_than3_def movemask_cmplt neon_mask_word_cmplt)

subsection \<open>Sign\<close>

lemma vector_sign_fallback:
  "\<not> sse2_intrinsics b \<Longrightarrow>
   vector_sign b input = map_lanes (\<lambda>a. if fge a 0 then float_one else float_minus_one) input"
  by (cases b)
     (simp_all add: backend_flags vector_sign_def vector_greater_equal_def vector_select_def vector_zero_def
        vector_set1_def vector_set_def vcgeq_f32_def vbslq_f32_def zip_lanes_def map_lanes_def
        get_mask_value_def select_lane_def bsl_mask_value mask_value_eq_0 Let_def)

lemma vector_sign_sse2:
  "sse2_intrinsics b \<Longrightarrow>
   vector_sign b input = map_lanes (\<lambda>a. if sign_bit a then float_minus_one else float_one) input"
  by (simp add: vector_sign_def mm_set_ps1_def mm_and_ps_def mm_or_ps_def zip_lanes_def map_lanes_def
        float_minus_zero_def float_one_def float_minus_one_def and_sign_mask Let_def)

subsection \<open>Dot product\<close>

lemma dot_conversions_agree_sse2:
  "sse2_intrinsics b \<Longrightarrow>
   vector4f_vector_dot_vector4f b lhs rhs = vector_set1 (vector4f_vector_dot_float b lhs rhs) \<and>
   vector4f_vector_dot_scalarf lhs rhs = vector4f_vector_dot_float b lhs rhs"
  by (simp add: vector4f_vector_dot_vector4f_def vector4f_vector_dot_float_def vector4f_vector_dot_scalarf_def
      mm_shuffle_ps_def mm_cvtss_f32_def get_lane_def vector_set1_def vector_set_def Let_def)

lemma dot_conversions_agree_scalar:
  "vector4f_vector_dot_vector4f Scalar lhs rhs = vector_set1 (vector4f_vector_dot_float Scalar lhs rhs)"
  by (simp add: vector4f_vector_dot_vector4f_def backend_flags Let_def)

lemma fadd_1_2p24: "fadd 0x3F800000 0x4B800000 = 0x4B800000"
  by (simp add: float_eval split del: if_split)

lemma fadd_2p24_1: "fadd 0x4B800000 0x3F800000 = 0x4B800000"
  by (simp add: float_eval split del: if_split)

lemma fadd_2p24_0: "fadd 0x4B800000 0 = 0x4B800000"
  by (simp add: float_eval split del: if_split)

lemma fadd_1_1: "fadd 0x3F800000 0x3F800000 = 0x40000000"
  by (simp add: float_eval split del: if_split)

lemma fadd_2_2p24: "fadd 0x40000000 0x4B800000 = 0x4B800001"
  by (simp add: float_eval split del: if_split)

lemma fmul_1_1: "fmul 0x3F800000 0x3F800000 = 0x3F800000"
  by (simp add: float_eval split del: if_split)

lemma fmul_2p24_1: "fmul 0x4B800000 0x3F800000 = 0x4B800000"
  by (simp add: float_eval split del: if_split)

lemma fmul_0_1: "fmul 0 0x3F800000 = 0"
  by (simp add: float_eval split del: if_split)

lemmas dot_example_arith = fadd_1_2p24 fadd_2p24_1 fadd_2p24_0 fadd_1_1 fadd_2_2p24 fmul_1_1 fmul_2p24_1 fmul_0_1

section \<open>Facts about interpolation\<close>

lemma magnitude_fneg [simp]: "magnitude (fneg a) = magnitude a"
  by (simp add: fneg_def magnitude_xor)

lemma sign_bit_fneg [simp]: "sign_bit (fneg a) = (\<not> sign_bit a)"
  by (simp add: fneg_def sign_bit_xor)

lemma is_nan_fneg [simp]: "is_nan (fneg a) = is_nan a"
  by (simp add: is_nan_def)

lemma is_inf_fneg [simp]: "is_inf (fneg a) = is_inf a"
  by (simp add: is_inf_def)

lemma is_zero_fneg [simp]: "is_zero (fneg a) = is_zero a"
  by (simp add: is_zero_def)

lemma is_finite_fneg [simp]: "is_finite (fneg a) = is_finite a"
  by (simp add: is_finite_def)

lemma mant_fneg [simp]: "mant (fneg a) = mant a"
  by (simp add: mant_def biased_exp_def fraction_def)

lemma expo_fneg [simp]: "expo (fneg a) = expo a"
  by (simp add: expo_def biased_exp_def)

lemma fneg_pack_0: "fneg (pack s 0) = pack (\<not> s) 0"
  by (rule lane_eqI) (simp_all add: magnitude_pack)

lemma sign_bit_0 [simp]: "sign_bit 0 = False"
  by (simp add: sign_bit_def)

lemma is_zero_0 [simp]: "is_zero 0"
  by (simp add: is_zero_def magnitude_def)

lemma mant_0 [simp]: "mant 0 = 0"
  by (simp add: zero_mant)

lemma is_nan_pack_0 [simp]: "\<not> is_nan (pack s 0)"
  by (simp add: is_nan_def magnitude_pack)

lemma is_finite_pack_0 [simp]: "is_finite (pack s 0)"
  by (simp add: is_finite_def magnitude_pack)

text \<open>Subtraction of a zero, and of the value itself.\<close>

lemma fsub_zero_right: "is_finite a \<Longrightarrow> \<not> is_zero a \<Longrightarrow> is_zero z \<Longrightarrow> fsub a z = a"
  by (simp add: fsub_def finite_not_nan zero_finite fadd_zero_right)

lemma fsub_zeros: "is_zero a \<Longrightarrow> is_zero z \<Longrightarrow> fsub a z = pack (sign_bit a \<and> \<not> sign_bit z) 0"
  by (simp add: fsub_def finite_not_nan zero_finite fadd_zeros)

lemma fsub_self: "is_finite a \<Longrightarrow> fsub a a = 0"
  using finite_sum_cancel [of "sign_bit a" "mant a" "expo a" 0]
  by (simp add: fsub_def fadd_def finite_not_nan finite_not_inf)

text \<open>A zero whose sign is known, canonically.\<close>

lemma zero_canon: "is_zero a \<Longrightarrow> (if sign_bit a then a = 0x80000000 else a = 0)"
  using zero_eq_pack [of a] by (cases "sign_bit a") simp_all

lemma drop_negative_zero:
  "(if is_zero a then 0 else a) = (if a = float_minus_zero then 0 else a)"
  using zero_cases [of a] by (auto simp: float_minus_zero_def is_zero_def magnitude_def)

lemma start_minus_start_times_zero:
  assumes "is_finite s"
  shows "fsub s (fmul s 0) = (if is_zero s then 0 else s)"
proof -
  have m: "fmul s 0 = pack (sign_bit s) 0"
    using assms by (simp add: fmul_zero_right)
  show ?thesis
  proof (cases "is_zero s")
    case True
    then show ?thesis by (simp add: m fsub_zeros)
  next
    case False
    then show ?thesis using assms by (simp add: m fsub_zero_right)
  qed
qed

lemma lerp_lane_alpha_zero:
  assumes "is_finite s" and "is_finite e"
  shows "fadd (fmul e 0) (fsub s (fmul s 0)) = (if is_zero s then 0 else s)"
    and "fadd (fsub s (fmul s 0)) (fmul e 0) = (if is_zero s then 0 else s)"
proof -
  have m: "fmul e 0 = pack (sign_bit e) 0"
    using assms(2) by (simp add: fmul_zero_right)
  show "fadd (fmul e 0) (fsub s (fmul s 0)) = (if is_zero s then 0 else s)"
    unfolding start_minus_start_times_zero [OF assms(1)] m
    using assms(1) by (simp add: fadd_zero_left fadd_zeros)
  show "fadd (fsub s (fmul s 0)) (fmul e 0) = (if is_zero s then 0 else s)"
    unfolding start_minus_start_times_zero [OF assms(1)] m
    using assms(1) by (simp add: fadd_zero_right fadd_zeros)
qed

lemma lerp_lane_alpha_one:
  assumes "is_finite s" and "is_finite e"
  shows "fadd (fmul e float_one) (fsub s (fmul s float_one)) = (if is_zero e then 0 else e)"
    and "fadd (fsub s (fmul s float_one)) (fmul e float_one) = (if is_zero e then 0 else e)"
proof -
  have t: "fsub s (fmul s float_one) = 0"
    using assms(1) by (simp add: float_one_def fmul_one_right fsub_self)
  have m: "fmul e float_one = e"
    using assms(2) by (simp add: float_one_def fmul_one_right)
  show "fadd (fmul e float_one) (fsub s (fmul s float_one)) = (if is_zero e then 0 else e)"
    unfolding t m using assms(2) by (simp add: fadd_zero_right fadd_zeros)
  show "fadd (fsub s (fmul s float_one)) (fmul e float_one) = (if is_zero e then 0 else e)"
    unfolding t m using assms(2) by (simp add: fadd_zero_left fadd_zeros)
qed

text \<open>The fused forms of the 64-bit NEON build.\<close>

lemma expo_0 [simp]: "expo 0 = - 149"
  by (simp add: expo_def biased_exp_def magnitude_def)

lemma is_finite_0 [simp]: "is_finite 0"
  by (simp add: is_finite_def magnitude_def)

lemma not_nan_0 [simp]: "\<not> is_nan 0"
  by (simp add: is_nan_def magnitude_def)

lemma not_inf_0 [simp]: "\<not> is_inf 0"
  by (simp add: is_inf_def magnitude_def)

lemma ffma_times_zero:
  assumes "is_finite c" and "is_finite a"
  shows "ffma c a 0 = (if is_zero c then pack (sign_bit c \<and> sign_bit a) 0 else c)"
proof (cases "is_zero c")
  case True
  then show ?thesis using assms
    by (simp add: ffma_def finite_not_nan finite_not_inf zero_mant finite_sum_zeros)
next
  case False
  have "finite_sum (sign_bit c) (mant c * 2 ^ 0) (expo c - int 0) (sign_bit a) 0 (expo a + expo 0) = c"
    using assms(1) False by (rule finite_sum_zero_right)
  then show ?thesis using assms False
    by (simp add: ffma_def finite_not_nan finite_not_inf)
qed

lemma ffma_times_one:
  assumes "is_finite c" and "is_finite a"
  shows "ffma c a float_one =
           finite_sum (sign_bit c) (mant c) (expo c) (sign_bit a) (mant a * 2 ^ 23) (expo a - int 23)"
  using assms
  by (simp add: ffma_def float_one_def finite_not_nan finite_not_inf finite_one mant_one expo_one sign_bit_one)

lemma lerp_lane_fused_alpha_zero:
  assumes "is_finite s" and "is_finite e"
  shows "ffma (ffma s (fneg s) 0) e 0 = (if is_zero s then 0 else s)"
proof -
  have t: "ffma s (fneg s) 0 = (if is_zero s then 0 else s)"
    using assms(1) by (simp add: ffma_times_zero)
  show ?thesis
    unfolding t using assms by (simp add: ffma_times_zero)
qed

lemma lerp_lane_fused_alpha_one:
  assumes "is_finite s" and "is_finite e"
  shows "ffma (ffma s (fneg s) float_one) e float_one = (if is_zero e then 0 else e)"
proof -
  have t: "ffma s (fneg s) float_one = 0"
    using assms(1) finite_sum_cancel [of "sign_bit s" "mant s" "expo s" 23]
    by (simp add: ffma_times_one)
  show ?thesis
  proof (cases "is_zero e")
    case True
    then show ?thesis unfolding t using assms(2)
      by (simp add: ffma_times_one zero_mant finite_sum_zeros)
  next
    case False
    have "finite_sum False 0 (- 149) (sign_bit e) (mant e * 2 ^ 23) (expo e - int 23) = e"
      using assms(2) False by (rule finite_sum_zero_left)
    then show ?thesis unfolding t using assms(2) False
      by (simp add: ffma_times_one)
  qed
qed

lemma vector_lerp_lanes:
  "vector_lerp b start end_v alpha =
     (if neon64_intrinsics b then zip_lanes (\<lambda>s e. ffma (ffma s (fneg s) alpha) e alpha) start end_v
      else if neon_intrinsics b then zip_lanes (\<lambda>s e. fadd (fsub s (fmul s alpha)) (fmul e alpha)) start end_v
      else zip_lanes (\<lambda>s e. fadd (fmul e alpha) (fsub s (fmul s alpha))) start end_v)"
  by (cases b)
     (simp_all add: vector_lerp_def vector_mul_add_float_def vector_neg_mul_sub_float_def backend_flags
        vfmaq_n_f32_def vfmsq_n_f32_def vmlaq_n_f32_def vmlsq_n_f32_def vector_add_def vector_sub_def
        vector_mul_float_def vector_mul_def mm_add_ps_def mm_sub_ps_def mm_mul_ps_def
        vector_set1_def vector_set_def zip_lanes_def)

lemma vector_lerp_alpha_zero:
  assumes "all_lanes is_finite start" and "all_lanes is_finite end_v"
  shows "vector_lerp b start end_v 0 = map_lanes (\<lambda>a. if a = float_minus_zero then 0 else a) start"
  using assms
  by (simp add: vector_lerp_lanes all_lanes_def zip_lanes_def map_lanes_def
      lerp_lane_alpha_zero lerp_lane_fused_alpha_zero drop_negative_zero)

lemma vector_lerp_alpha_one:
  assumes "all_lanes is_finite start" and "all_lanes is_finite end_v"
  shows "vector_lerp b start end_v float_one = map_lanes (\<lambda>a. if a = float_minus_zero then 0 else a) end_v"
  using assms
  by (simp add: vector_lerp_lanes all_lanes_def zip_lanes_def map_lanes_def
      lerp_lane_alpha_one lerp_lane_fused_alpha_one drop_negative_zero)

lemma finite_examples:
  "is_finite float_one" "is_finite float_minus_zero" "is_finite 0x4B800000" "is_finite 0xC2C80000"
  by (simp_all add: is_finite_def magnitude_def float_one_def float_minus_zero_def)


section \<open>Facts about normalisation\<close>

lemma vector_length_squared3_lanes:
  "vector_length_squared3 b input =
     fadd (fadd (fmul (lane_x input) (lane_x input)) (fmul (lane_y input) (lane_y input)))
          (fmul (lane_z input) (lane_z input))"
  by (cases b)
     (simp_all add: vector_length_squared3_def vector4f_vector_dot3_scalarf_def vector4f_vector_dot3_float_def
        backend_flags mm_mul_ps_def mm_shuffle_ps_def mm_add_ss_def mm_cvtss_f32_def get_lane_def
        vmulq_f32_def vget_low_f32_def vget_high_f32_def vpadd_f32_def vdup_lane_f32_def vadd_f32_def
        vget_lane_f32_def vector_get_x_def vector_get_y_def vector_get_z_def vgetq_lane_f32_def
        zip_lanes_def Let_def)

lemma vector_mul_by_scalar_lanes:
  "(if sse2_intrinsics b then vector_mul_scalarf input s else vector_mul_float b input s)
     = map_lanes (\<lambda>a. fmul a s) input"
  by (cases b)
     (simp_all add: vector_mul_scalarf_def vector_mul_float_def vector_mul_def backend_flags
        mm_mul_ps_def mm_set_ps1_def vmulq_n_f32_def vector_set1_def vector_set_def zip_lanes_def map_lanes_def)

lemma vector_normalize3_cases:
  "vector_normalize3 ext b input fallback threshold =
     (if fge (vector_length_squared3 b input) threshold
      then map_lanes (\<lambda>a. fmul a (scalar_sqrt_reciprocal ext (vector_length_squared3 b input))) input
      else fallback)"
  by (simp add: vector_normalize3_def vector_mul_by_scalar_lanes Let_def)

lemma fge_iff: "fge a t \<longleftrightarrow> \<not> flt a t \<and> \<not> is_nan a \<and> \<not> is_nan t"
  by (auto simp: fge_def fle_def flt_def)

lemma fmul_0_0: "fmul 0 0 = 0"
  by (simp add: float_eval split del: if_split)

lemma fadd_0_0: "fadd 0 0 = 0"
  by (simp add: float_eval split del: if_split)

lemma is_nan_qnan: "is_nan 0x7FC00000"
  by (simp add: is_nan_def magnitude_def)

lemma quiet_qnan: "quiet 0x7FC00000 = 0x7FC00000"
  by (simp add: quiet_def)

lemma fmul_qnan_left: "fmul 0x7FC00000 r = 0x7FC00000"
  by (simp add: fmul_def is_nan_qnan quiet_qnan)

lemma fadd_qnan_left: "fadd 0x7FC00000 r = 0x7FC00000"
  by (simp add: fadd_def is_nan_qnan quiet_qnan)

lemma length_squared3_nan_example:
  "vector_length_squared3 b (vector_set 0x7FC00000 0 0 0) = 0x7FC00000"
  by (simp add: vector_length_squared3_lanes vector_set_def fmul_qnan_left fadd_qnan_left)

lemma length_squared3_zero_example:
  "vector_length_squared3 b (vector_set 0 0 0 0x3F800000) = 0"
  by (simp add: vector_length_squared3_lanes vector_set_def fmul_0_0 fadd_0_0)


section \<open>Facts about rounding\<close>

lemma mask_value_or: "mask_value p OR mask_value q = mask_value (p \<or> q)"
  by (simp add: mask_value_def)

lemma mask_value_nor: "NOT (mask_value p) AND NOT (mask_value q) = NOT (mask_value (p \<or> q))"
  by (simp add: mask_value_def)

lemma fabs_mask: "a AND 0x7FFFFFFF = fabs a"
  by (simp add: fabs_def)

text \<open>The SSE2 paths of the rounding operations test the mask before anything else.\<close>

lemma vector_ceil_sse2:
  "vector_ceil ext SSE2 input =
     zip_lanes (\<lambda>a r. if fge (fabs a) float_2p23 \<or> \<not> feq a a then a else r) input
       (let integer_part = mm_cvtepi32_ps (mm_cvtps_epi32 input)
        in mm_sub_ps integer_part (mm_cvtepi32_ps (mm_cmplt_ps integer_part input)))"
  by (simp add: vector_ceil_def backend_flags abs_mask_def mm_set_ps1_def mm_and_ps_def mm_andnot_ps_def
      mm_or_ps_def mm_cmpge_ps_def mm_cmpneq_ps_def zip_lanes_def Let_def mask_value_or mask_value_nor bsl_mask_value fabs_mask split del: if_split)

lemma vector_floor_sse2:
  "vector_floor ext SSE2 input =
     zip_lanes (\<lambda>a r. if fge (fabs a) float_2p23 \<or> \<not> feq a a then a else r) input
       (let integer_part = mm_cvtepi32_ps (mm_cvtps_epi32 input)
        in mm_add_ps integer_part (mm_cvtepi32_ps (mm_cmpgt_ps integer_part input)))"
  by (simp add: vector_floor_def backend_flags abs_mask_def mm_set_ps1_def mm_and_ps_def mm_andnot_ps_def
      mm_or_ps_def mm_cmpge_ps_def mm_cmpneq_ps_def zip_lanes_def Let_def mask_value_or mask_value_nor bsl_mask_value fabs_mask split del: if_split)

lemma vector_round_symmetric_sse2:
  "vector_round_symmetric ext SSE2 input =
     zip_lanes (\<lambda>a r. if fge (fabs a) float_2p23 \<or> \<not> feq a a then a else r) input
       (mm_cvtepi32_ps (mm_cvttps_epi32
          (mm_add_ps input (mm_or_ps (mm_and_ps input (mm_set_ps1 float_minus_zero)) (mm_set_ps1 float_half)))))"
  by (simp add: vector_round_symmetric_def backend_flags abs_mask_def mm_set_ps1_def mm_set_ps_def
      mm_and_ps_def mm_andnot_ps_def
      mm_or_ps_def mm_cmpge_ps_def mm_cmpneq_ps_def zip_lanes_def Let_def mask_value_or mask_value_nor bsl_mask_value fabs_mask split del: if_split)

lemma vector_round_bankers_sse2:
  "vector_round_bankers ext SSE2 input =
     map_lanes (\<lambda>a. if fge (fabs a) float_2p23 then a
                     else fsub (fadd a ((a AND float_minus_zero) OR float_2p23)) ((a AND float_minus_zero) OR float_2p23))
       input"
  by (simp add: vector_round_bankers_def backend_flags abs_mask_def mm_set_ps1_def mm_set_ps_def
      mm_and_ps_def mm_andnot_ps_def mm_add_ps_def mm_sub_ps_def
      mm_or_ps_def mm_cmpge_ps_def zip_lanes_def map_lanes_def Let_def bsl_mask_value fabs_mask)

lemma not_feq_self: "\<not> feq a a \<longleftrightarrow> is_nan a"
  by (simp add: feq_def)

text \<open>The SSE4 path of \<open>vector_round_symmetric\<close>, lane by lane.\<close>

lemma vector_round_symmetric_sse4:
  "sse4_intrinsics b \<Longrightarrow>
   vector_round_symmetric ext b input =
     map_lanes (\<lambda>a. if fge a 0
                     then fround_integral Toward_Negative (fadd a ((a AND float_minus_zero) OR float_half))
                     else fround_integral Toward_Positive (fadd a ((a AND float_minus_zero) OR float_half)))
       input"
  by (cases b)
     (simp_all add: vector_round_symmetric_def vector_select_def backend_flags mm_set_ps1_def mm_set_ps_def
        mm_setzero_ps_def mm_and_ps_def mm_andnot_ps_def mm_or_ps_def mm_add_ps_def mm_cmpge_ps_def
        mm_floor_ps_def mm_ceil_ps_def mm_blendv_ps_def zip_lanes_def map_lanes_def Let_def
        sse_select_mask_value sign_bit_mask_value)

lemma vector_round_symmetric_fallback:
  "\<not> sse2_intrinsics b \<Longrightarrow>
   vector_round_symmetric ext b input =
     map_lanes (\<lambda>a. if fge a 0 then scalar_floor ext (fadd a float_half)
                     else scalar_ceil ext (fsub a float_half))
       input"
  by (cases b)
     (simp_all add: vector_round_symmetric_def vector_select_def vector_floor_def vector_ceil_def
        vector_add_def vector_sub_def vector_greater_equal_def vector_zero_def vector_set1_def vector_set_def
        vector_get_x_def vector_get_y_def vector_get_z_def vector_get_w_def vgetq_lane_f32_def get_lane_def
        vaddq_f32_def vsubq_f32_def vcgeq_f32_def vbslq_f32_def get_mask_value_def select_lane_def
        backend_flags zip_lanes_def map_lanes_def Let_def bsl_mask_value mask_value_eq_0)

lemma odd_2p23_arith:
  "fge 0x4B000001 0" "fge (fabs 0x4B000001) float_2p23"
  "(0x4B000001 AND float_minus_zero) OR float_half = float_half"
  by (simp_all add: cmp_eval fabs_def float_2p23_def float_minus_zero_def float_half_def)

lemma fadd_odd_2p23_half: "fadd 0x4B000001 float_half = 0x4B000002"
  unfolding float_half_def by (simp add: float_eval split del: if_split)

lemma fround_integral_large: "fround_integral r 0x4B000002 = 0x4B000002"
  by (simp add: fround_integral_def is_nan_def is_inf_def expo_def biased_exp_def magnitude_def)


section \<open>Facts about the trigonometric operations\<close>

subsection \<open>Sign transfer, selection and the tangent\<close>

lemma sign_bit_or_sign:
  "sign_bit ((a AND 0x7FFFFFFF) OR (s AND 0x80000000)) = sign_bit s"
  by (simp add: sign_bit_iff_bit bit_or_iff bit_and_iff bit_int_mask31 bit_int_2p31)

lemma copysign_eq: "copysign a s = pack (sign_bit s) (magnitude a)"
proof (rule lane_eqI)
  show "sign_bit (copysign a s) = sign_bit (pack (sign_bit s) (magnitude a))"
    unfolding copysign_def sign_bit_or_sign
    by (simp only: sign_bit_pack [OF magnitude_lt])
  have "(a AND 0x7FFFFFFF OR (s AND 0x80000000)) AND 0x7FFFFFFF = a AND 0x7FFFFFFF"
    by (rule bit_word_eqI) (auto simp: bit_and_iff bit_or_iff bit_int_mask31 bit_int_2p31)
  then have "magnitude (copysign a s) = magnitude a"
    unfolding copysign_def
    using magnitude_and_abs [of "a AND 0x7FFFFFFF OR (s AND 0x80000000)"] magnitude_and_abs [of a]
    by simp
  then show "magnitude (copysign a s) = magnitude (pack (sign_bit s) (magnitude a))"
    by (simp add: magnitude_pack magnitude_lt)
qed

lemma neg_sign_mask: "(- 2147483649 :: lane) = 0x7FFFFFFF"
  by simp

lemma copysign_positive: "\<not> sign_bit c \<Longrightarrow> c OR (s AND 0x80000000) = copysign c s"
proof -
  assume "\<not> sign_bit c"
  then have "c AND 0x7FFFFFFF = c"
    using pack_unpack [of c] pack_unpack [of "c AND 0x7FFFFFFF"]
    by (simp add: sign_bit_and_abs magnitude_and_abs)
  then show ?thesis by (simp add: copysign_def)
qed

lemma vector_copy_sign_lanes:
  "vector_copy_sign b input control_sign = zip_lanes copysign input control_sign"
  by (cases b)
     (simp_all add: vector_copy_sign_def backend_flags mm_set_ps1_def mm_and_ps_def mm_andnot_ps_def mm_or_ps_def
        zip_lanes_def vector_set_def vector_get_x_def vector_get_y_def vector_get_z_def vector_get_w_def
        vgetq_lane_f32_def get_lane_def float_minus_zero_def copysign_def neg_sign_mask and.commute Let_def)

lemma vector_equal_lanes:
  "vector_equal b lhs rhs = zip_lanes (\<lambda>a c. mask_value (feq a c)) lhs rhs"
  by (cases b)
     (simp_all add: vector_equal_def backend_flags mm_cmpeq_ps_def vceqq_f32_def get_mask_value_def zip_lanes_def)

lemma vector_select_mask_lanes:
  "vector_select b (zip_lanes (\<lambda>a c. mask_value (p a c)) u v) if_true if_false =
     \<lparr>lane_x = (if p (lane_x u) (lane_x v) then lane_x if_true else lane_x if_false),
      lane_y = (if p (lane_y u) (lane_y v) then lane_y if_true else lane_y if_false),
      lane_z = (if p (lane_z u) (lane_z v) then lane_z if_true else lane_z if_false),
      lane_w = (if p (lane_w u) (lane_w v) then lane_w if_true else lane_w if_false)\<rparr>"
  by (cases b)
     (simp_all add: vector_select_def backend_flags mm_blendv_ps_def mm_or_ps_def mm_and_ps_def mm_andnot_ps_def
        vbslq_f32_def select_lane_def zip_lanes_def sign_bit_mask_value sse_select_mask_value bsl_mask_value
        mask_value_eq_0 split del: if_split)

lemma vector_div_lanes: "b \<noteq> NEON \<Longrightarrow> vector_div ext b lhs rhs = zip_lanes fdiv lhs rhs"
  by (cases b)
     (simp_all add: vector_div_def backend_flags mm_div_ps_def vdivq_f32_def vector_set_def zip_lanes_def)

lemma copysign_infinity:
  "copysign float_infinity a = (if sign_bit a then 0xFF800000 else 0x7F800000)"
  by (simp add: copysign_eq float_infinity_def magnitude_def pack_def)

lemma vector_tan_lanes:
  "vector_tan ext b angle =
     zip3_lanes (\<lambda>c a d. if feq c 0 then copysign float_infinity a else d)
       (vector_cos ext b angle) angle
       (vector_div ext b (vector_sin ext b angle) (vector_cos ext b angle))"
proof -
  have "vector_tan ext b angle =
      vector_select b (zip_lanes (\<lambda>a c. mask_value (feq a c)) (vector_cos ext b angle) vector_zero)
        (zip_lanes copysign (vector_set1 float_infinity) angle)
        (vector_div ext b (vector_sin ext b angle) (vector_cos ext b angle))"
    by (simp only: vector_tan_def vector_equal_lanes vector_copy_sign_lanes Let_def)
  also have "\<dots> = zip3_lanes (\<lambda>c a d. if feq c 0 then copysign float_infinity a else d)
       (vector_cos ext b angle) angle
       (vector_div ext b (vector_sin ext b angle) (vector_cos ext b angle))"
    unfolding vector_select_mask_lanes
    by (simp add: vector_zero_def vector_set1_def vector_set_def zip_lanes_def zip3_lanes_def)
  finally show ?thesis .
qed


subsection \<open>Comparisons with zero and the quadrant correction of atan2\<close>

lemma unat_or_abs_ge: "magnitude a \<le> magnitude (a OR q)"
proof -
  have "(a OR q) AND 0x7FFFFFFF = (a AND 0x7FFFFFFF) OR (q AND 0x7FFFFFFF)"
    by (simp add: bit.conj_disj_distrib2)
  moreover have "a AND 0x7FFFFFFF \<le> (a AND 0x7FFFFFFF) OR (q AND 0x7FFFFFFF)"
    by (rule le_word_or2)
  ultimately have "unat (a AND 0x7FFFFFFF) \<le> unat ((a OR q) AND 0x7FFFFFFF)"
    by (simp add: word_le_nat_alt)
  then show ?thesis by (simp only: unat_and_abs)
qed

lemma is_nan_quiet: "is_nan a \<Longrightarrow> is_nan (quiet a)"
  using unat_or_abs_ge [of a "0x00400000"] by (simp add: is_nan_def quiet_def)

lemma feq_refl: "\<not> is_nan a \<Longrightarrow> feq a a"
  by (simp add: feq_def)

lemma feq_zero: "is_zero a \<Longrightarrow> feq 0 a"
  by (simp add: feq_def is_zero_def is_nan_def order_key_def magnitude_def)

lemma same_float_add_zero: "same_float (fadd a 0) a"
proof (cases "is_nan a")
  case True
  then show ?thesis by (simp add: same_float_def fadd_def is_nan_quiet)
next
  case nn: False
  show ?thesis
  proof (cases "is_inf a")
    case True
    then show ?thesis using nn by (simp add: same_float_def fadd_def feq_refl)
  next
    case False
    then have fin: "is_finite a" using nn by (auto simp: is_finite_def is_nan_def is_inf_def)
    show ?thesis
    proof (cases "is_zero a")
      case True
      then show ?thesis by (simp add: same_float_def fadd_zeros feq_zero)
    next
      case False
      then show ?thesis using fin nn by (simp add: same_float_def fadd_zero_right feq_refl)
    qed
  qed
qed

lemma feq_0_iff: "feq a 0 \<longleftrightarrow> is_zero a"
  by (auto simp: feq_def is_zero_def is_nan_def order_key_def magnitude_def)

lemma not_fgt_zero: "is_zero a \<Longrightarrow> \<not> fgt a 0"
  by (simp add: fgt_def flt_def is_zero_def order_key_def magnitude_def)

lemma sign_bit_half_pi: "\<not> sign_bit float_half_pi" "\<not> sign_bit float_pi"
  by (simp_all add: sign_bit_def float_half_pi_def float_pi_def)

lemma and_sign_mask_commute: "0x80000000 AND a = a AND 0x80000000" for a :: lane
  by (rule and.commute)



lemma mask_value_and: "mask_value p AND mask_value q = mask_value (p \<and> q)"
  by (simp add: mask_value_def)

lemma and_mask_value: "mask_value c AND v = (if c then v else 0)"
  unfolding mask_value_def all_ones by simp

lemma andnot_mask_value: "NOT (mask_value c) AND v = (if c then 0 else v)"
  unfolding mask_value_def all_ones by simp

lemma atan2_lane:
  "fadd (if feq X 0 \<and> feq Y 0 then 0 else if feq X 0 then 0 else A)
        (if feq X 0 \<and> feq Y 0 then 0
         else if fgt X 0 then 0
         else (if feq X 0 then float_half_pi else float_pi) OR (Y AND float_minus_zero))
   = (if feq X 0 then (if feq Y 0 then 0 else copysign float_half_pi Y)
      else if fgt X 0 then fadd A 0 else fadd A (copysign float_pi Y))"
proof (cases "feq X 0")
  case x0: True
  then have nxp: "\<not> fgt X 0" by (simp add: feq_0_iff not_fgt_zero)
  show ?thesis
  proof (cases "feq Y 0")
    case True
    then show ?thesis using x0 by (simp add: fadd_zeros)
  next
    case False
    have c: "float_half_pi OR (Y AND float_minus_zero) = copysign float_half_pi Y"
      unfolding float_minus_zero_def by (rule copysign_positive) (rule sign_bit_half_pi)
    have "is_finite (copysign float_half_pi Y)" "\<not> is_zero (copysign float_half_pi Y)"
      by (simp_all add: copysign_eq is_finite_def is_zero_def magnitude_pack magnitude_lt)
         (simp_all add: magnitude_def float_half_pi_def)
    then have "fadd 0 (copysign float_half_pi Y) = copysign float_half_pi Y"
      by (simp add: fadd_zero_left)
    then show ?thesis using x0 False nxp by (simp add: c)
  qed
next
  case nx0: False
  have c: "float_pi OR (Y AND float_minus_zero) = copysign float_pi Y"
    unfolding float_minus_zero_def by (rule copysign_positive) (rule sign_bit_half_pi)
  show ?thesis using nx0 by (simp add: c)
qed

lemma mask_value_nand: "NOT (mask_value p) OR NOT (mask_value q) = NOT (mask_value (p \<and> q))"
  by (simp add: mask_value_def)

lemma vector_atan2_sse2_raw:
  "sse2_intrinsics b \<Longrightarrow>
   vector_atan2 ext b y x =
     zip3_lanes (\<lambda>Y X A.
         fadd (if feq X 0 \<and> feq Y 0 then 0 else if feq X 0 then 0 else A)
              (if feq X 0 \<and> feq Y 0 then 0
               else if fgt X 0 then 0
               else (if feq X 0 then float_half_pi else float_pi) OR (Y AND float_minus_zero)))
       y x (vector_atan ext b (mm_div_ps y x))"
  by (simp add: vector_atan2_def mm_setzero_ps_def mm_set_ps1_def mm_set_ps_def mm_cmpeq_ps_def mm_cmpgt_ps_def
      mm_and_ps_def mm_andnot_ps_def mm_or_ps_def mm_add_ps_def zip_lanes_def zip3_lanes_def Let_def
      mask_value_and mask_value_nand and_mask_value andnot_mask_value if_distrib [of "\<lambda>v. v OR _"]
      split del: if_split cong: if_cong)

lemma vector_atan2_sse2_lanes:
  "sse2_intrinsics b \<Longrightarrow>
   vector_atan2 ext b y x =
     zip3_lanes (\<lambda>Y X A. if feq X 0 then (if feq Y 0 then 0 else copysign float_half_pi Y)
                          else if fgt X 0 then fadd A 0 else fadd A (copysign float_pi Y))
       y x (vector_atan ext b (mm_div_ps y x))"
  by (simp only: vector_atan2_sse2_raw atan2_lane)


subsection \<open>The steps of sine and cosine\<close>

lemma vector_round_bankers_lanes:
  "vector_round_bankers ext b v = map_lanes (round_bankers_lane ext b) v"
  by (cases b)
     (simp_all add: round_bankers_lane_def vector_round_bankers_def backend_flags mm_round_ps_nearest_def
        mm_set_ps1_def mm_set_ps_def mm_and_ps_def mm_andnot_ps_def mm_or_ps_def mm_add_ps_def mm_sub_ps_def
        mm_cmpge_ps_def abs_mask_def vector_set1_def vector_set_def vector_get_x_def vector_get_y_def
        vector_get_z_def vector_get_w_def vgetq_lane_f32_def get_lane_def
        zip_lanes_def map_lanes_def Let_def)

lemma round_bankers_lane_sse2:
  "round_bankers_lane ext SSE2 a =
     (if fge (fabs a) float_2p23 then a
      else fsub (fadd a ((a AND float_minus_zero) OR float_2p23)) ((a AND float_minus_zero) OR float_2p23))"
  by (simp add: round_bankers_lane_def vector_round_bankers_sse2 map_lanes_def vector_set1_def vector_set_def)

lemma round_bankers_lane_sse4:
  "sse4_intrinsics b \<Longrightarrow> round_bankers_lane ext b a = fround_integral To_Nearest_Even a"
  by (simp add: round_bankers_lane_def vector_round_bankers_def mm_round_ps_nearest_def map_lanes_def
      vector_set1_def vector_set_def)

lemma blend_less_equal:
  "(if avx then (if sign_bit (mask_value c) then x else rf)
    else (NOT (mask_value c) AND rf) OR (x AND mask_value c)) = (if c then x else rf)"
  by (simp add: sign_bit_mask_value sse_select_mask_value)

lemma reflection_alt:
  "(if fle (fabs r) float_half_pi then r else fsub ((r AND float_minus_zero) OR float_pi) r) = reflection r"
proof -
  have "(r AND float_minus_zero) OR float_pi = copysign float_pi r"
    using copysign_positive [of float_pi r] sign_bit_half_pi(2)
    by (simp add: float_minus_zero_def or.commute)
  then show ?thesis by (simp add: reflection_def is_reflected_def)
qed

lemma vector_sin_sse2_raw:
  "sse2_intrinsics b \<Longrightarrow>
   vector_sin ext b input =
     map_lanes (\<lambda>a. fmul (sin_polynomial
                  (fmul (if fle (fabs (range_reduction (round_bankers_lane ext b) a)) float_half_pi
                         then range_reduction (round_bankers_lane ext b) a
                         else fsub ((range_reduction (round_bankers_lane ext b) a AND float_minus_zero) OR float_pi)
                                (range_reduction (round_bankers_lane ext b) a))
                        (if fle (fabs (range_reduction (round_bankers_lane ext b) a)) float_half_pi
                         then range_reduction (round_bankers_lane ext b) a
                         else fsub ((range_reduction (round_bankers_lane ext b) a AND float_minus_zero) OR float_pi)
                                (range_reduction (round_bankers_lane ext b) a))))
                  (if fle (fabs (range_reduction (round_bankers_lane ext b) a)) float_half_pi
                         then range_reduction (round_bankers_lane ext b) a
                         else fsub ((range_reduction (round_bankers_lane ext b) a AND float_minus_zero) OR float_pi)
                                (range_reduction (round_bankers_lane ext b) a)))
       input"
  by (simp add: vector_sin_def vector_round_bankers_lanes range_reduction_def
      mm_set_ps1_def mm_set_ps_def mm_mul_ps_def mm_sub_ps_def mm_and_ps_def mm_andnot_ps_def mm_or_ps_def
      mm_cmple_ps_def mm_blendv_ps_def abs_mask_def zip_lanes_def map_lanes_def Let_def
      fabs_mask sign_bit_mask_value sse_select_mask_value split del: if_split cong: if_cong)

lemma vector_sin_sse2:
  "sse2_intrinsics b \<Longrightarrow> vector_sin ext b input = map_lanes (sin_steps (round_bankers_lane ext b)) input"
  by (simp only: vector_sin_sse2_raw reflection_alt) (simp add: map_lanes_def sin_steps_def Let_def)

lemma and_mask_value_right: "a AND mask_value c = (if c then a else 0)"
  unfolding mask_value_def all_ones by simp

lemma or_if_merge: "(if c then 0 else b) OR (if c then a else 0) = (if c then a else b)" for a b :: lane
  by simp

lemma cos_sign_alt:
  "p OR (if c then 0 else float_minus_zero) = (if \<not> c then p OR float_minus_zero else p)"
  by simp

lemma vector_cos_sse2_raw:
  "sse2_intrinsics b \<Longrightarrow>
   vector_cos ext b input =
     map_lanes (\<lambda>a. cos_polynomial
                  (fmul (if fle (fabs (range_reduction (round_bankers_lane ext b) a)) float_half_pi
                         then range_reduction (round_bankers_lane ext b) a
                         else fsub ((range_reduction (round_bankers_lane ext b) a AND float_minus_zero) OR float_pi)
                                (range_reduction (round_bankers_lane ext b) a))
                        (if fle (fabs (range_reduction (round_bankers_lane ext b) a)) float_half_pi
                         then range_reduction (round_bankers_lane ext b) a
                         else fsub ((range_reduction (round_bankers_lane ext b) a AND float_minus_zero) OR float_pi)
                                (range_reduction (round_bankers_lane ext b) a)))
                OR (if fle (fabs (range_reduction (round_bankers_lane ext b) a)) float_half_pi
                    then 0 else float_minus_zero))
       input"
  by (simp add: vector_cos_def vector_round_bankers_lanes range_reduction_def
      mm_set_ps1_def mm_set_ps_def mm_mul_ps_def mm_sub_ps_def mm_and_ps_def mm_andnot_ps_def mm_or_ps_def
      mm_cmple_ps_def mm_blendv_ps_def abs_mask_def zip_lanes_def map_lanes_def Let_def
      fabs_mask sign_bit_mask_value andnot_mask_value and_mask_value_right or_if_merge
      split del: if_split cong: if_cong)

lemma vector_cos_sse2:
  "sse2_intrinsics b \<Longrightarrow> vector_cos ext b input = map_lanes (cos_steps (round_bankers_lane ext b)) input"
  by (simp only: vector_cos_sse2_raw reflection_alt cos_sign_alt)
     (simp add: map_lanes_def cos_steps_def is_reflected_def Let_def)

lemma vector_sin_fallback:
  "\<not> sse2_intrinsics b \<Longrightarrow> vector_sin ext b input = map_lanes (scalar_sin ext) input"
  by (cases b)
     (simp_all add: vector_sin_def backend_flags vector_set_def vector_get_x_def vector_get_y_def
        vector_get_z_def vector_get_w_def vgetq_lane_f32_def get_lane_def map_lanes_def)

lemma vector_cos_fallback:
  "\<not> sse2_intrinsics b \<Longrightarrow> vector_cos ext b input = map_lanes (scalar_cos ext) input"
  by (cases b)
     (simp_all add: vector_cos_def backend_flags vector_set_def vector_get_x_def vector_get_y_def
        vector_get_z_def vector_get_w_def vgetq_lane_f32_def get_lane_def map_lanes_def)


subsection \<open>Worked lanes of sine and cosine\<close>

lemma trig_at_zero_1: "fmul 0x00000000 0x3E22F983 = 0x00000000"
  by (simp add: float_eval split del: if_split)

lemma trig_at_zero_2: "fadd 0x00000000 0x4B000000 = 0x4B000000"
  by (simp add: float_eval split del: if_split)

lemma trig_at_zero_3: "fsub 0x4B000000 0x4B000000 = 0x00000000"
  by (simp add: float_eval split del: if_split)

lemma trig_at_zero_4: "fmul 0x00000000 0x40C90FDB = 0x00000000"
  by (simp add: float_eval split del: if_split)

lemma trig_at_zero_5: "fsub 0x00000000 0x00000000 = 0x00000000"
  by (simp add: float_eval split del: if_split)

lemma trig_at_zero_6: "fsub 0x40490FDB 0x00000000 = 0x40490FDB"
  by (simp add: float_eval split del: if_split)

lemma trig_at_zero_7: "fmul 0x00000000 0x00000000 = 0x00000000"
  by (simp add: float_eval split del: if_split)

lemma trig_at_zero_8: "fmul 0x00000000 0xB2CCAF86 = 0x80000000"
  by (simp add: float_eval split del: if_split)

lemma trig_at_zero_9: "fadd 0x80000000 0x3638B1AD = 0x3638B1AD"
  by (simp add: float_eval split del: if_split)

lemma trig_at_zero_10: "fmul 0x3638B1AD 0x00000000 = 0x00000000"
  by (simp add: float_eval split del: if_split)

lemma trig_at_zero_11: "fadd 0x00000000 0xB9500BB2 = 0xB9500BB2"
  by (simp add: float_eval split del: if_split)

lemma trig_at_zero_12: "fmul 0xB9500BB2 0x00000000 = 0x80000000"
  by (simp add: float_eval split del: if_split)

lemma trig_at_zero_13: "fadd 0x80000000 0x3C088885 = 0x3C088885"
  by (simp add: float_eval split del: if_split)

lemma trig_at_zero_14: "fmul 0x3C088885 0x00000000 = 0x00000000"
  by (simp add: float_eval split del: if_split)

lemma trig_at_zero_15: "fadd 0x00000000 0xBE2AAAAB = 0xBE2AAAAB"
  by (simp add: float_eval split del: if_split)

lemma trig_at_zero_16: "fmul 0xBE2AAAAB 0x00000000 = 0x80000000"
  by (simp add: float_eval split del: if_split)

lemma trig_at_zero_17: "fadd 0x80000000 0x3F800000 = 0x3F800000"
  by (simp add: float_eval split del: if_split)

lemma trig_at_zero_18: "fmul 0x3F800000 0x00000000 = 0x00000000"
  by (simp add: float_eval split del: if_split)

lemma trig_at_zero_19: "fmul 0x00000000 0xB48BDD11 = 0x80000000"
  by (simp add: float_eval split del: if_split)

lemma trig_at_zero_20: "fadd 0x80000000 0x37CFB4C2 = 0x37CFB4C2"
  by (simp add: float_eval split del: if_split)

lemma trig_at_zero_21: "fmul 0x37CFB4C2 0x00000000 = 0x00000000"
  by (simp add: float_eval split del: if_split)

lemma trig_at_zero_22: "fadd 0x00000000 0xBAB609AA = 0xBAB609AA"
  by (simp add: float_eval split del: if_split)

lemma trig_at_zero_23: "fmul 0xBAB609AA 0x00000000 = 0x80000000"
  by (simp add: float_eval split del: if_split)

lemma trig_at_zero_24: "fadd 0x80000000 0x3D2AAAA3 = 0x3D2AAAA3"
  by (simp add: float_eval split del: if_split)

lemma trig_at_zero_25: "fmul 0x3D2AAAA3 0x00000000 = 0x00000000"
  by (simp add: float_eval split del: if_split)

lemma trig_at_zero_26: "fadd 0x00000000 0xBF000000 = 0xBF000000"
  by (simp add: float_eval split del: if_split)

lemma trig_at_zero_27: "fmul 0xBF000000 0x00000000 = 0x80000000"
  by (simp add: float_eval split del: if_split)

lemma trig_at_zero_28: "fdiv 0x00000000 0x3F800000 = 0x00000000"
  by (simp add: float_eval split del: if_split)

lemmas trig_at_zero = trig_at_zero_1 trig_at_zero_2 trig_at_zero_3 trig_at_zero_4 trig_at_zero_5 trig_at_zero_6 trig_at_zero_7 trig_at_zero_8 trig_at_zero_9 trig_at_zero_10 trig_at_zero_11 trig_at_zero_12 trig_at_zero_13 trig_at_zero_14 trig_at_zero_15 trig_at_zero_16 trig_at_zero_17 trig_at_zero_18 trig_at_zero_19 trig_at_zero_20 trig_at_zero_21 trig_at_zero_22 trig_at_zero_23 trig_at_zero_24 trig_at_zero_25 trig_at_zero_26 trig_at_zero_27 trig_at_zero_28

lemma trig_at_1e30_1: "fmul 0x7149F2CA 0x3E22F983 = 0x70009078"
  by (simp add: float_eval split del: if_split)

lemma trig_at_1e30_2: "fadd 0x70009078 0x4B000000 = 0x70009078"
  by (simp add: float_eval split del: if_split)

lemma trig_at_1e30_3: "fsub 0x70009078 0x4B000000 = 0x70009078"
  by (simp add: float_eval split del: if_split)

lemma trig_at_1e30_4: "fmul 0x70009078 0x40C90FDB = 0x7149F2C9"
  by (simp add: float_eval split del: if_split)

lemma trig_at_1e30_5: "fsub 0x7149F2CA 0x7149F2C9 = 0x65800000"
  by (simp add: float_eval split del: if_split)

lemma trig_at_1e30_6: "fsub 0x40490FDB 0x65800000 = 0xE5800000"
  by (simp add: float_eval split del: if_split)

lemma trig_at_1e30_7: "fmul 0xE5800000 0xE5800000 = 0x7F800000"
  by (simp add: float_eval split del: if_split)

lemma trig_at_1e30_8: "fmul 0x7F800000 0xB2CCAF86 = 0xFF800000"
  by (simp add: float_eval split del: if_split)

lemma trig_at_1e30_9: "fadd 0xFF800000 0x3638B1AD = 0xFF800000"
  by (simp add: float_eval split del: if_split)

lemma trig_at_1e30_10: "fmul 0xFF800000 0x7F800000 = 0xFF800000"
  by (simp add: float_eval split del: if_split)

lemma trig_at_1e30_11: "fadd 0xFF800000 0xB9500BB2 = 0xFF800000"
  by (simp add: float_eval split del: if_split)

lemma trig_at_1e30_12: "fadd 0xFF800000 0x3C088885 = 0xFF800000"
  by (simp add: float_eval split del: if_split)

lemma trig_at_1e30_13: "fadd 0xFF800000 0xBE2AAAAB = 0xFF800000"
  by (simp add: float_eval split del: if_split)

lemma trig_at_1e30_14: "fadd 0xFF800000 0x3F800000 = 0xFF800000"
  by (simp add: float_eval split del: if_split)

lemma trig_at_1e30_15: "fmul 0xFF800000 0xE5800000 = 0x7F800000"
  by (simp add: float_eval split del: if_split)

lemma trig_at_1e30_16: "fmul 0x7F800000 0xB48BDD11 = 0xFF800000"
  by (simp add: float_eval split del: if_split)

lemma trig_at_1e30_17: "fadd 0xFF800000 0x37CFB4C2 = 0xFF800000"
  by (simp add: float_eval split del: if_split)

lemma trig_at_1e30_18: "fadd 0xFF800000 0xBAB609AA = 0xFF800000"
  by (simp add: float_eval split del: if_split)

lemma trig_at_1e30_19: "fadd 0xFF800000 0x3D2AAAA3 = 0xFF800000"
  by (simp add: float_eval split del: if_split)

lemma trig_at_1e30_20: "fadd 0xFF800000 0xBF000000 = 0xFF800000"
  by (simp add: float_eval split del: if_split)

lemmas trig_at_1e30 = trig_at_1e30_1 trig_at_1e30_2 trig_at_1e30_3 trig_at_1e30_4 trig_at_1e30_5 trig_at_1e30_6 trig_at_1e30_7 trig_at_1e30_8 trig_at_1e30_9 trig_at_1e30_10 trig_at_1e30_11 trig_at_1e30_12 trig_at_1e30_13 trig_at_1e30_14 trig_at_1e30_15 trig_at_1e30_16 trig_at_1e30_17 trig_at_1e30_18 trig_at_1e30_19 trig_at_1e30_20

lemma reduce_216_1: "fmul 0x4358C519 0x3E22F983 = 0x420A0000"
  by (simp add: float_eval split del: if_split)

lemma reduce_216_2: "fadd 0x420A0000 0x4B000000 = 0x4B000022"
  by (simp add: float_eval split del: if_split)

lemma reduce_216_3: "fsub 0x4B000022 0x4B000000 = 0x42080000"
  by (simp add: float_eval split del: if_split)

lemma reduce_216_4: "fmul 0x42080000 0x40C90FDB = 0x4355A0D9"
  by (simp add: float_eval split del: if_split)

lemma reduce_216_5: "fsub 0x4358C519 0x4355A0D9 = 0x40491000"
  by (simp add: float_eval split del: if_split)

lemmas reduce_216 = reduce_216_1 reduce_216_2 reduce_216_3 reduce_216_4 reduce_216_5

lemmas float_consts = float_one_def float_minus_one_def float_minus_zero_def float_2p23_def float_half_def
  float_infinity_def float_two_pi_def float_inv_two_pi_def float_pi_def float_half_pi_def

lemmas steps_eval = range_reduction_def reflection_def is_reflected_def
  sin_steps_def cos_steps_def sin_polynomial_def cos_polynomial_def
  round_bankers_lane_sse2 copysign_def fabs_def float_consts cmp_eval Let_def

lemma sin_cos_at_zero:
  "sin_steps (round_bankers_lane ext SSE2) 0 = 0"
  "cos_steps (round_bankers_lane ext SSE2) 0 = float_one"
  by (simp_all add: steps_eval trig_at_zero split del: if_split)

lemma reduction_of_1e30:
  "range_reduction (round_bankers_lane ext SSE2) 0x7149F2CA = 0x65800000"
  "reflection 0x65800000 = 0xE5800000"
  by (simp_all add: steps_eval trig_at_1e30 split del: if_split)

lemma sin_cos_at_1e30:
  "sin_steps (round_bankers_lane ext SSE2) 0x7149F2CA = 0x7F800000"
  "cos_steps (round_bankers_lane ext SSE2) 0x7149F2CA = 0xFF800000"
  by (simp_all add: steps_eval trig_at_1e30 split del: if_split)

lemma reduction_of_216:
  "range_reduction (round_bankers_lane ext SSE2) 0x4358C519 = 0x40491000"
  by (simp add: steps_eval reduce_216 split del: if_split)

lemma fdiv_0_1: "fdiv 0 0x3F800000 = 0"
  by (simp add: float_eval split del: if_split)

lemma copysign_half_pi: "copysign float_half_pi s = (if sign_bit s then 0xBFC90FDB else 0x3FC90FDB)"
  by (simp add: copysign_eq float_half_pi_def magnitude_def pack_def)

lemma copysign_pi: "copysign float_pi s = (if sign_bit s then 0xC0490FDB else 0x40490FDB)"
  by (simp add: copysign_eq float_pi_def magnitude_def pack_def)

lemma flt_zero_excludes: "flt X 0 \<Longrightarrow> \<not> feq X 0 \<and> \<not> fgt X 0"
  by (auto simp: flt_def feq_def fgt_def)

lemma vector_atan2_fallback:
  "\<not> sse2_intrinsics b \<Longrightarrow> vector_atan2 ext b y x = zip_lanes (scalar_atan2 ext) y x"
  by (cases b)
     (simp_all add: vector_atan2_def backend_flags vector_set_def vector_get_x_def vector_get_y_def
        vector_get_z_def vector_get_w_def vgetq_lane_f32_def get_lane_def zip_lanes_def)

text \<open>The constants that the source writes as float expressions.\<close>

lemma inv_two_pi_quotient: "fdiv float_one float_two_pi = float_inv_two_pi"
  by (simp add: float_one_def float_two_pi_def float_inv_two_pi_def float_eval split del: if_split)

lemma half_pi_product: "fmul 0x3F6EE581 0x3FD774EB = float_half_pi"
  by (simp add: float_half_pi_def float_eval split del: if_split)

text \<open>The path without SSE2 of \<open>vector_atan2\<close>, with the kernel that the specification describes.\<close>

lemma vector_atan2_fallback_spec:
  "\<not> sse2_intrinsics b \<Longrightarrow>
   vector_atan2 (ext\<lparr>scalar_atan2 := scalar_atan2_spec (scalar_atan ext)\<rparr>) b y x =
     zip3_lanes (\<lambda>Y X A. if feq X 0 then (if feq Y 0 then 0 else copysign float_half_pi Y)
                          else if fgt X 0 then fadd A 0 else fadd A (copysign float_pi Y))
       y x (zip_lanes (\<lambda>Y X. scalar_atan ext (fdiv Y X)) y x)"
  by (simp add: vector_atan2_fallback scalar_atan2_spec_def zip_lanes_def zip3_lanes_def)

lemma atan2_lane_at_zero_x:
  "feq 0 0" "\<not> feq float_one 0" "\<not> feq float_minus_one 0"
  "copysign float_half_pi float_one = float_half_pi"
  "copysign float_half_pi float_minus_one = 0xBFC90FDB"
  unfolding copysign_half_pi
  by (simp_all add: cmp_eval float_one_def float_minus_one_def float_half_pi_def)

lemma vector_atan2_all_builds:
  "vector_atan2 (ext\<lparr>scalar_atan2 := scalar_atan2_spec (scalar_atan ext)\<rparr>) b y x =
     zip3_lanes (\<lambda>Y X A. if feq X 0 then (if feq Y 0 then 0 else copysign float_half_pi Y)
                          else if fgt X 0 then fadd A 0 else fadd A (copysign float_pi Y))
       y x (if sse2_intrinsics b
            then vector_atan (ext\<lparr>scalar_atan2 := scalar_atan2_spec (scalar_atan ext)\<rparr>) b (mm_div_ps y x)
            else zip_lanes (\<lambda>Y X. scalar_atan ext (fdiv Y X)) y x)"
  by (simp add: vector_atan2_sse2_lanes vector_atan2_fallback_spec)

lemma vector_atan2_zero_x:
  "vector_atan2 (ext\<lparr>scalar_atan2 := scalar_atan2_spec (scalar_atan ext)\<rparr>) b
     (vector_set1 0) (vector_set1 0) = vector_set1 0"
  "vector_atan2 (ext\<lparr>scalar_atan2 := scalar_atan2_spec (scalar_atan ext)\<rparr>) b
     (vector_set1 float_one) (vector_set1 0) = vector_set1 float_half_pi"
  "vector_atan2 (ext\<lparr>scalar_atan2 := scalar_atan2_spec (scalar_atan ext)\<rparr>) b
     (vector_set1 float_minus_one) (vector_set1 0) = vector_set1 0xBFC90FDB"
  unfolding vector_atan2_all_builds
  by (simp_all add: zip3_lanes_def vector_set1_def vector_set_def atan2_lane_at_zero_x)

section \<open>The claims\<close>

subsection \<open>C9: vector\_set\_x replaces the x lane and keeps the others\<close>

text \<open>
  C9.  For every vector \<open>v\<close> and scalar \<open>f\<close>, on every build target, \<open>vector_set_x(v, f)\<close>
  is a function of its two arguments that returns \<open>v\<close> with the x lane replaced by \<open>f\<close>:
  \<open>vector_get_x\<close> of the result is \<open>f\<close>, and the y, z and w lanes of the result are the
  lanes of \<open>v\<close> bit for bit, read through the getters or directly.
\<close>

theorem vector_set_x_frame:
  "vector_set_x b v f = v\<lparr>lane_x := f\<rparr> \<and>
   vector_get_x b (vector_set_x b v f) = f \<and>
   vector_get_y b (vector_set_x b v f) = vector_get_y b v \<and>
   vector_get_z b (vector_set_x b v f) = vector_get_z b v \<and>
   vector_get_w b (vector_set_x b v f) = vector_get_w b v \<and>
   lane_y (vector_set_x b v f) = lane_y v \<and>
   lane_z (vector_set_x b v f) = lane_z v \<and>
   lane_w (vector_set_x b v f) = lane_w v"
  by (simp add: vector_set_x_def vector_get_x_def vector_get_y_def vector_get_z_def vector_get_w_def
      mm_move_ss_def mm_set_ss_def mm_cvtss_f32_def mm_shuffle_ps_def get_lane_def
      vsetq_lane_f32_def vgetq_lane_f32_def)

subsection \<open>C6: the three-lane reductions ignore the w lanes\<close>

text \<open>
  C6.  On every build target \<open>vector_all_less_than3(lhs, rhs)\<close> is the conjunction and
  \<open>vector_any_less_than3(lhs, rhs)\<close> the disjunction of the comparisons \<open><\<close> of the x, y
  and z lanes; replacing the w lanes of both inputs by any values changes neither; and
  \<open>all_less_than3((0, 0, 0, 100), (1, 1, 1, -100))\<close> is true.
\<close>

theorem less_than3_ignores_w:
  "vector_all_less_than3 b lhs rhs =
     (flt (lane_x lhs) (lane_x rhs) \<and> flt (lane_y lhs) (lane_y rhs) \<and> flt (lane_z lhs) (lane_z rhs)) \<and>
   vector_any_less_than3 b lhs rhs =
     (flt (lane_x lhs) (lane_x rhs) \<or> flt (lane_y lhs) (lane_y rhs) \<or> flt (lane_z lhs) (lane_z rhs)) \<and>
   vector_all_less_than3 b (lhs\<lparr>lane_w := lw\<rparr>) (rhs\<lparr>lane_w := rw\<rparr>) = vector_all_less_than3 b lhs rhs \<and>
   vector_any_less_than3 b (lhs\<lparr>lane_w := lw\<rparr>) (rhs\<lparr>lane_w := rw\<rparr>) = vector_any_less_than3 b lhs rhs \<and>
   vector_all_less_than3 b (vector_set 0 0 0 0x42C80000) (vector_set 0x3F800000 0x3F800000 0x3F800000 0xC2C80000)"
proof -
  have ex: "flt 0 0x3F800000" by (simp add: cmp_eval)
  show ?thesis
    by (simp add: all_less_than3_lanes any_less_than3_lanes vector_set_def ex)
qed

subsection \<open>C10: vector\_sign of negative zero\<close>

text \<open>
  C10.  The claim is that \<open>vector_sign\<close> returns \<open>1.0\<close> in every lane that compares
  \<open>>= 0.0\<close>, negative zero included, on every build target.  Negative zero does compare
  \<open>>= 0.0\<close>, and the fallback and NEON paths return \<open>1.0\<close> for it; the SSE2 path copies the
  sign bit of the input onto \<open>1.0\<close> and returns \<open>-1.0\<close>.
\<close>

theorem vector_sign_sse2_negative_zero:
  "fge float_minus_zero 0 \<and>
   vector_sign Scalar (vector_set1 float_minus_zero) = vector_set1 float_one \<and>
   vector_sign NEON (vector_set1 float_minus_zero) = vector_set1 float_one \<and>
   vector_sign SSE2 (vector_set1 float_minus_zero) = vector_set1 float_minus_one"
proof -
  have ge: "fge float_minus_zero 0" by (simp add: float_minus_zero_def cmp_eval)
  have sb: "sign_bit float_minus_zero" by (simp add: float_minus_zero_def sign_bit_def)
  show ?thesis
    using ge sb
    by (simp add: vector_sign_fallback vector_sign_sse2 backend_flags map_lanes_def vector_set1_def vector_set_def)
qed

subsection \<open>C8: the conversions of the dot product wrapper\<close>

text \<open>
  C8.  The claim is that the wrapper returned by \<open>vector_dot\<close> gives the same value as a
  scalar and as a vector.  On the NEON builds \<open>operator float\<close> has no NEON branch and sums
  the products left to right, \<open>((x + y) + z) + w\<close>, while \<open>operator vector4f\<close> sums them
  pairwise, \<open>(x + z) + (y + w)\<close>.  For \<open>lhs = (1, 2^24, 1, 0)\<close> and \<open>rhs = (1, 1, 1, 1)\<close>
  the scalar is \<open>16777216\<close> and every lane of the vector is \<open>16777218\<close>.
\<close>

theorem vector_dot_neon_conversions_disagree:
  "vector4f_vector_dot_float NEON (vector_set 0x3F800000 0x4B800000 0x3F800000 0) (vector_set1 0x3F800000)
     = 0x4B800000 \<and>
   vector4f_vector_dot_vector4f NEON (vector_set 0x3F800000 0x4B800000 0x3F800000 0) (vector_set1 0x3F800000)
     = vector_set1 0x4B800001 \<and>
   vector4f_vector_dot_float NEON64 (vector_set 0x3F800000 0x4B800000 0x3F800000 0) (vector_set1 0x3F800000)
     = 0x4B800000 \<and>
   vector4f_vector_dot_vector4f NEON64 (vector_set 0x3F800000 0x4B800000 0x3F800000 0) (vector_set1 0x3F800000)
     = vector_set1 0x4B800001"
  by (simp add: vector4f_vector_dot_float_def vector4f_vector_dot_vector4f_def backend_flags
      vector_get_x_def vector_get_y_def vector_get_z_def vector_get_w_def vgetq_lane_f32_def get_lane_def
      vmulq_f32_def zip_lanes_def vget_low_f32_def vget_high_f32_def vadd_f32_def vpadd_f32_def vcombine_f32_def
      vector_set1_def vector_set_def Let_def dot_example_arith)

subsection \<open>C1: vector\_lerp at the end points\<close>

text \<open>
  C1.  The claim is that for finite \<open>a\<close> and \<open>b\<close>, \<open>vector_lerp(a, b, 0.0)\<close> is \<open>a\<close> and
  \<open>vector_lerp(a, b, 1.0)\<close> is \<open>b\<close>, bit for bit in every lane.  It fails for a lane that
  holds negative zero: \<open>start - start * 0.0\<close> is \<open>-0.0 - -0.0 = +0.0\<close>, and
  \<open>end * 1.0 + (start - start * 1.0)\<close> is \<open>-0.0 + +0.0 = +0.0\<close>.
\<close>

theorem vector_lerp_negative_zero_counterexample:
  "all_lanes is_finite (vector_set1 float_minus_zero) \<and> all_lanes is_finite (vector_set1 float_one) \<and>
   vector_lerp SSE2 (vector_set1 float_minus_zero) (vector_set1 float_one) 0 = vector_zero \<and>
   vector_zero \<noteq> vector_set1 float_minus_zero \<and>
   vector_lerp SSE2 (vector_set1 float_one) (vector_set1 float_minus_zero) float_one = vector_zero"
proof -
  have f1: "all_lanes is_finite (vector_set1 float_minus_zero)"
    by (simp add: all_lanes_def vector_set1_def vector_set_def finite_examples)
  have f2: "all_lanes is_finite (vector_set1 float_one)"
    by (simp add: all_lanes_def vector_set1_def vector_set_def finite_examples)
  have ne: "float_one \<noteq> float_minus_zero" "(0::lane) \<noteq> float_minus_zero"
    by (simp_all add: float_one_def float_minus_zero_def)
  show ?thesis
    using f1 f2 ne
    by (simp add: vector_lerp_alpha_zero vector_lerp_alpha_one)
       (simp add: map_lanes_def vector_set1_def vector_set_def vector_zero_def)
qed

text \<open>
  C1, as amended.  For all vectors \<open>start\<close> and \<open>end\<close> whose lanes are all finite, on every
  build target (the fused NEON64 path included), \<open>vector_lerp(start, end, 0.0)\<close> returns
  \<open>start\<close> and \<open>vector_lerp(start, end, 1.0)\<close> returns \<open>end\<close>, bit for bit in every lane that
  does not hold negative zero; a lane that holds \<open>-0.0\<close> is returned as \<open>+0.0\<close>.
\<close>

theorem vector_lerp_endpoints:
  assumes "all_lanes is_finite start" and "all_lanes is_finite end_v"
  shows "vector_lerp b start end_v 0 = map_lanes (\<lambda>a. if a = float_minus_zero then 0 else a) start \<and>
         vector_lerp b start end_v float_one = map_lanes (\<lambda>a. if a = float_minus_zero then 0 else a) end_v"
  using assms by (simp add: vector_lerp_alpha_zero vector_lerp_alpha_one)

theorem vector_lerp_endpoints_witness:
  "all_lanes is_finite (vector_set float_one 0xC2C80000 0x4B800000 float_minus_zero) \<and>
   all_lanes is_finite (vector_set 0 float_minus_zero 0x4B800000 float_one) \<and>
   vector_lerp NEON64 (vector_set float_one 0xC2C80000 0x4B800000 float_minus_zero)
       (vector_set 0 float_minus_zero 0x4B800000 float_one) 0
     = vector_set float_one 0xC2C80000 0x4B800000 0 \<and>
   vector_lerp NEON64 (vector_set float_one 0xC2C80000 0x4B800000 float_minus_zero)
       (vector_set 0 float_minus_zero 0x4B800000 float_one) float_one
     = vector_set 0 0 0x4B800000 float_one"
proof -
  have f1: "all_lanes is_finite (vector_set float_one 0xC2C80000 0x4B800000 float_minus_zero)"
    by (simp add: all_lanes_def vector_set_def finite_examples)
  have f2: "all_lanes is_finite (vector_set 0 float_minus_zero 0x4B800000 float_one)"
    by (simp add: all_lanes_def vector_set_def finite_examples)
  have ne: "float_one \<noteq> float_minus_zero" "(0xC2C80000 :: lane) \<noteq> float_minus_zero"
      "(0x4B800000 :: lane) \<noteq> float_minus_zero" "(0 :: lane) \<noteq> float_minus_zero"
    by (simp_all add: float_one_def float_minus_zero_def)
  show ?thesis
    using f1 f2 ne vector_lerp_endpoints [OF f1 f2, of NEON64]
    by (simp add: map_lanes_def vector_set_def)
qed

subsection \<open>C4: the safe overload of vector\_normalize3\<close>

text \<open>
  C4.  The claim is that \<open>vector_normalize3(input, fallback, t)\<close> returns the fallback when
  the squared length is below \<open>t\<close> and otherwise the input times the reciprocal square root
  of the squared length.  The source tests \<open>len_sq >= threshold\<close>, which is false as well
  when the comparison is unordered.  For \<open>input = (NaN, 0, 0, 0)\<close> and the default threshold
  the squared length is NaN, which is not below the threshold, and the fallback
  \<open>(0, 0, 0, 0)\<close> is returned, while the x lane of the product is NaN whatever the
  reciprocal square root kernel computes.
\<close>

theorem vector_normalize3_nan_counterexample:
  "\<not> flt (vector_length_squared3 Scalar (vector_set 0x7FC00000 0 0 0)) default_threshold \<and>
   vector_normalize3 undefined Scalar (vector_set 0x7FC00000 0 0 0) vector_zero default_threshold = vector_zero \<and>
   lane_x (vector_mul_float Scalar (vector_set 0x7FC00000 0 0 0)
             (scalar_sqrt_reciprocal undefined (vector_length_squared3 Scalar (vector_set 0x7FC00000 0 0 0))))
     = 0x7FC00000 \<and>
   lane_x vector_zero = 0"
proof -
  have n: "\<not> fge 0x7FC00000 default_threshold" "\<not> flt 0x7FC00000 default_threshold"
    by (simp_all add: fge_def fle_def flt_def is_nan_qnan)
  have len: "vector_length_squared3 Scalar (vector_set 0x7FC00000 0 0 0) = 0x7FC00000"
    by (rule length_squared3_nan_example)
  have x: "lane_x (vector_mul_float Scalar (vector_set 0x7FC00000 0 0 0) r) = 0x7FC00000" for r
    by (simp add: vector_mul_float_def vector_mul_def backend_flags vector_set_def vector_set1_def fmul_qnan_left)
  show ?thesis
    unfolding vector_normalize3_cases len x using n
    by (simp add: vector_set_def vector_set1_def vector_zero_def)
qed

text \<open>
  C4, as amended.  For every input, fallback and threshold \<open>t\<close>, on every build target and
  for every reciprocal square root kernel: the squared length is \<open>(x*x + y*y) + z*z\<close>;
  the safe overload returns every lane of the input multiplied by the reciprocal square
  root of the squared length when the squared length is \<open>>= t\<close>, and exactly the fallback
  in every other case, that is when the squared length is below \<open>t\<close> and also when the
  squared length or \<open>t\<close> is NaN.  The default threshold is \<open>1.0E-8F\<close>.
\<close>

theorem vector_normalize3_safe:
  "vector_length_squared3 b input =
     fadd (fadd (fmul (lane_x input) (lane_x input)) (fmul (lane_y input) (lane_y input)))
          (fmul (lane_z input) (lane_z input)) \<and>
   vector_normalize3 ext b input fallback threshold =
     (if fge (vector_length_squared3 b input) threshold
      then map_lanes (\<lambda>a. fmul a (scalar_sqrt_reciprocal ext (vector_length_squared3 b input))) input
      else fallback) \<and>
   (flt (vector_length_squared3 b input) threshold \<longrightarrow>
      vector_normalize3 ext b input fallback threshold = fallback) \<and>
   (is_nan (vector_length_squared3 b input) \<or> is_nan threshold \<longrightarrow>
      vector_normalize3 ext b input fallback threshold = fallback) \<and>
   fge (vector_length_squared3 b input) threshold =
     (\<not> flt (vector_length_squared3 b input) threshold \<and>
      \<not> is_nan (vector_length_squared3 b input) \<and> \<not> is_nan threshold)"
  using fge_iff [of "vector_length_squared3 b input" threshold]
    vector_length_squared3_lanes [of b input]
  by (simp add: vector_normalize3_cases)


theorem vector_normalize3_safe_witness:
  "flt (vector_length_squared3 Scalar (vector_set 0 0 0 0x3F800000)) default_threshold \<and>
   vector_normalize3 undefined Scalar (vector_set 0 0 0 0x3F800000) (vector_set1 float_one) default_threshold
     = vector_set1 float_one \<and>
   is_nan (vector_length_squared3 SSE2 (vector_set 0x7FC00000 0 0 0)) \<and>
   vector_normalize3 undefined SSE2 (vector_set 0x7FC00000 0 0 0) (vector_set1 float_one) default_threshold
     = vector_set1 float_one"
proof -
  have lt: "flt (vector_length_squared3 Scalar (vector_set 0 0 0 0x3F800000)) default_threshold"
    by (simp add: length_squared3_zero_example default_threshold_def cmp_eval)
  have nan: "is_nan (vector_length_squared3 SSE2 (vector_set 0x7FC00000 0 0 0))"
    by (simp add: length_squared3_nan_example is_nan_qnan)
  show ?thesis
    using lt nan
      vector_normalize3_safe [where ext = undefined and b = Scalar and input = "vector_set 0 0 0 0x3F800000"
        and fallback = "vector_set1 float_one" and threshold = default_threshold]
      vector_normalize3_safe [where ext = undefined and b = SSE2 and input = "vector_set 0x7FC00000 0 0 0"
        and fallback = "vector_set1 float_one" and threshold = default_threshold]
    by blast
qed


subsection \<open>C2: lanes without a fractional part\<close>

text \<open>
  C2.  The claim is that \<open>vector_ceil\<close>, \<open>vector_floor\<close>, \<open>vector_round_symmetric\<close> and
  \<open>vector_round_bankers\<close> return unchanged, on every path, any lane that is NaN, infinite
  or of magnitude at least \<open>2^23\<close>; the comment at the head of \<open>vector_round_symmetric\<close>
  says the same.  The SSE2 path of \<open>vector_round_symmetric\<close> tests for such lanes first and
  returns them as they are.  The SSE4 path and the fallback path add the bias \<open>0.5\<close> first:
  for the lane \<open>8388609.0\<close> (\<open>2^23 + 1\<close>, bits \<open>0x4B000001\<close>) the sum \<open>8388609.5\<close> is a
  tie that rounds to the even neighbour \<open>8388610.0\<close>, an integer that floor leaves alone,
  so that the SSE4 and AVX builds return \<open>8388610.0\<close>, and the fallback and NEON builds
  return \<open>scalar_floor(8388610.0)\<close>.
\<close>

theorem vector_round_symmetric_changes_large_odd:
  "fge (fabs 0x4B000001) float_2p23 \<and>
   vector_round_symmetric ext SSE4 (vector_set1 0x4B000001) = vector_set1 0x4B000002 \<and>
   vector_round_symmetric ext AVX (vector_set1 0x4B000001) = vector_set1 0x4B000002 \<and>
   vector_round_symmetric ext NEON (vector_set1 0x4B000001) = vector_set1 (scalar_floor ext 0x4B000002) \<and>
   vector_round_symmetric ext Scalar (vector_set1 0x4B000001) = vector_set1 (scalar_floor ext 0x4B000002) \<and>
   vector_round_symmetric ext SSE2 (vector_set1 0x4B000001) = vector_set1 0x4B000001"
  by (simp add: vector_round_symmetric_sse4 vector_round_symmetric_fallback vector_round_symmetric_sse2
      backend_flags map_lanes_def zip_lanes_def vector_set1_def vector_set_def odd_2p23_arith
      fadd_odd_2p23_half fround_integral_large)

subsection \<open>C5: the tangent\<close>

text \<open>
  C5.  On every build target and for every sine and cosine kernel, \<open>vector_tan\<close> returns
  in each lane the quotient that \<open>vector_div\<close> computes from the lane of \<open>vector_sin\<close> and
  the lane of \<open>vector_cos\<close>, except in the lanes where the cosine compares equal to zero:
  those lanes hold an infinity with the sign bit of the angle, \<open>0x7F800000\<close> or
  \<open>0xFF800000\<close>, never a NaN.  On every target but 32-bit NEON \<open>vector_div\<close> is the IEEE
  division of the lanes; on 32-bit NEON it is the reciprocal estimate refined twice.
\<close>

theorem vector_tan_quotient:
  "vector_tan ext b angle =
     zip3_lanes (\<lambda>c a d. if feq c 0 then copysign float_infinity a else d)
       (vector_cos ext b angle) angle
       (vector_div ext b (vector_sin ext b angle) (vector_cos ext b angle)) \<and>
   (b \<noteq> NEON \<longrightarrow> vector_div ext b s c = zip_lanes fdiv s c) \<and>
   copysign float_infinity a = (if sign_bit a then 0xFF800000 else 0x7F800000)"
  using vector_tan_lanes [of ext b angle] by (simp add: vector_div_lanes copysign_infinity)

theorem vector_tan_quotient_witness:
  "SSE2 \<noteq> NEON \<and>
   vector_tan undefined SSE2 (vector_set1 0) = vector_set1 0 \<and>
   Scalar \<noteq> NEON \<and>
   vector_tan (undefined\<lparr>scalar_sin := \<lambda>a. float_one, scalar_cos := \<lambda>a. 0\<rparr>) Scalar (vector_set1 float_minus_one)
     = vector_set1 0xFF800000"
proof -
  have s: "sse2_intrinsics SSE2" "\<not> sse2_intrinsics Scalar" by (simp_all add: backend_flags)
  have z: "feq 0 0" "\<not> feq float_one 0" "sign_bit float_minus_one"
    by (simp_all add: cmp_eval float_one_def float_minus_one_def)
  have 1: "vector_tan undefined SSE2 (vector_set1 0) = vector_set1 0"
    using vector_tan_quotient [of undefined SSE2 "vector_set1 0"
        "vector_sin undefined SSE2 (vector_set1 0)" "vector_cos undefined SSE2 (vector_set1 0)" 0] z
    by (simp add: vector_sin_sse2 [OF s(1)] vector_cos_sse2 [OF s(1)] sin_cos_at_zero map_lanes_def
        zip_lanes_def zip3_lanes_def vector_set1_def vector_set_def float_one_def fdiv_0_1)
  have 2: "vector_tan (undefined\<lparr>scalar_sin := \<lambda>a. float_one, scalar_cos := \<lambda>a. 0\<rparr>) Scalar
        (vector_set1 float_minus_one) = vector_set1 0xFF800000"
    using vector_tan_quotient [of "undefined\<lparr>scalar_sin := \<lambda>a. float_one, scalar_cos := \<lambda>a. 0\<rparr>" Scalar
        "vector_set1 float_minus_one" s c float_minus_one] z
    by (simp add: vector_sin_fallback [OF s(2)] vector_cos_fallback [OF s(2)] map_lanes_def
        zip_lanes_def zip3_lanes_def vector_set1_def vector_set_def)
  show ?thesis using 1 2 by simp
qed

subsection \<open>C3: the quadrants of atan2\<close>

text \<open>
  C3.  \<open>vector_atan2 y x\<close> returns in each lane: \<open>0\<close> when the lanes of \<open>x\<close> and \<open>y\<close> both
  compare equal to zero; \<open>pi/2\<close> with the sign of the \<open>y\<close> lane when only the \<open>x\<close> lane
  does; the arc tangent of \<open>y / x\<close> plus \<open>0\<close> when the \<open>x\<close> lane is positive, a sum equal as
  a float to the arc tangent itself; and the arc tangent plus \<open>pi\<close> with the sign of the \<open>y\<close>
  lane in the remaining case, which is the one a negative \<open>x\<close> lane takes.  On the SSE2
  family of targets this is the code of \<open>vector_atan2\<close> itself, with the lanes of
  \<open>vector_atan\<close> for the arc tangent.  On the other targets every lane is \<open>scalar_atan2\<close> of
  the two lanes, and the rule is the one of the kernel that the specification describes,
  \<open>scalar_atan2_spec\<close>, with \<open>scalar_atan\<close> for the arc tangent.  In particular the lanes
  \<open>(0, 0)\<close>, \<open>(1, 0)\<close> and \<open>(-1, 0)\<close> give \<open>0\<close>, \<open>pi/2\<close> and \<open>-pi/2\<close> on every target.
\<close>

theorem vector_atan2_quadrants:
  "(sse2_intrinsics b \<longrightarrow>
      vector_atan2 ext b y x =
        zip3_lanes (\<lambda>Y X A. if feq X 0 then (if feq Y 0 then 0 else copysign float_half_pi Y)
                             else if fgt X 0 then fadd A 0 else fadd A (copysign float_pi Y))
          y x (vector_atan ext b (mm_div_ps y x))) \<and>
   (\<not> sse2_intrinsics b \<longrightarrow> vector_atan2 ext b y x = zip_lanes (scalar_atan2 ext) y x) \<and>
   (flt X 0 \<longrightarrow> \<not> feq X 0 \<and> \<not> fgt X 0) \<and>
   same_float (fadd A 0) A \<and>
   copysign float_half_pi Y = (if sign_bit Y then 0xBFC90FDB else 0x3FC90FDB) \<and>
   copysign float_pi Y = (if sign_bit Y then 0xC0490FDB else 0x40490FDB) \<and>
   (\<not> sse2_intrinsics b \<longrightarrow>
      vector_atan2 (ext\<lparr>scalar_atan2 := scalar_atan2_spec (scalar_atan ext)\<rparr>) b y x =
        zip3_lanes (\<lambda>Y X A. if feq X 0 then (if feq Y 0 then 0 else copysign float_half_pi Y)
                             else if fgt X 0 then fadd A 0 else fadd A (copysign float_pi Y))
          y x (zip_lanes (\<lambda>Y X. scalar_atan ext (fdiv Y X)) y x)) \<and>
   vector_atan2 (ext\<lparr>scalar_atan2 := scalar_atan2_spec (scalar_atan ext)\<rparr>) b (vector_set1 0) (vector_set1 0) = vector_set1 0 \<and>
   vector_atan2 (ext\<lparr>scalar_atan2 := scalar_atan2_spec (scalar_atan ext)\<rparr>) b (vector_set1 float_one) (vector_set1 0) = vector_set1 float_half_pi \<and>
   vector_atan2 (ext\<lparr>scalar_atan2 := scalar_atan2_spec (scalar_atan ext)\<rparr>) b (vector_set1 float_minus_one) (vector_set1 0) = vector_set1 0xBFC90FDB"
proof -
  have code: "sse2_intrinsics b \<longrightarrow>
      vector_atan2 ext b y x =
        zip3_lanes (\<lambda>Y X A. if feq X 0 then (if feq Y 0 then 0 else copysign float_half_pi Y)
                             else if fgt X 0 then fadd A 0 else fadd A (copysign float_pi Y))
          y x (vector_atan ext b (mm_div_ps y x))"
    by (simp add: vector_atan2_sse2_lanes)
  have kernel: "\<not> sse2_intrinsics b \<longrightarrow> vector_atan2 ext b y x = zip_lanes (scalar_atan2 ext) y x"
    by (simp add: vector_atan2_fallback)
  have spec: "\<not> sse2_intrinsics b \<longrightarrow>
      vector_atan2 (ext\<lparr>scalar_atan2 := scalar_atan2_spec (scalar_atan ext)\<rparr>) b y x =
        zip3_lanes (\<lambda>Y X A. if feq X 0 then (if feq Y 0 then 0 else copysign float_half_pi Y)
                             else if fgt X 0 then fadd A 0 else fadd A (copysign float_pi Y))
          y x (zip_lanes (\<lambda>Y X. scalar_atan ext (fdiv Y X)) y x)"
    using vector_atan2_fallback_spec [of b ext y x] by blast
  have negative: "flt X 0 \<longrightarrow> \<not> feq X 0 \<and> \<not> fgt X 0"
    using flt_zero_excludes [of X] by blast
  show ?thesis
    by (intro conjI code kernel spec negative same_float_add_zero copysign_half_pi copysign_pi
        vector_atan2_zero_x)
qed

theorem vector_atan2_quadrants_witness:
  "sse2_intrinsics SSE2 \<and>
   vector_atan2 undefined SSE2 (vector_set 0 float_one float_minus_one float_minus_zero) (vector_set 0 0 float_minus_zero 0)
     = vector_set 0 float_half_pi 0xBFC90FDB 0 \<and>
   flt float_minus_one 0 \<and> \<not> sse2_intrinsics Scalar \<and>
   vector_atan2 (undefined\<lparr>scalar_atan2 := scalar_atan2_spec (scalar_atan (undefined :: externals))\<rparr>) Scalar
       (vector_set 0 float_one float_minus_one float_minus_zero) (vector_set 0 0 float_minus_zero 0)
     = vector_set 0 float_half_pi 0xBFC90FDB 0"
proof -
  have s: "sse2_intrinsics SSE2" "\<not> sse2_intrinsics Scalar" by (simp_all add: backend_flags)
  have z: "feq 0 0" "feq float_minus_zero 0" "\<not> feq float_one 0" "\<not> feq float_minus_one 0"
      "\<not> sign_bit float_one" "sign_bit float_minus_one" "flt float_minus_one 0"
    by (simp_all add: cmp_eval float_one_def float_minus_one_def float_minus_zero_def)
  have h: "copysign float_half_pi float_one = float_half_pi"
      "copysign float_half_pi float_minus_one = 0xBFC90FDB"
    unfolding copysign_half_pi using z by (simp_all add: float_half_pi_def)
  have 1: "vector_atan2 undefined SSE2 (vector_set 0 float_one float_minus_one float_minus_zero)
        (vector_set 0 0 float_minus_zero 0) = vector_set 0 float_half_pi 0xBFC90FDB 0"
    unfolding vector_atan2_quadrants [where b = SSE2 and ext = undefined
        and y = "vector_set 0 float_one float_minus_one float_minus_zero"
        and x = "vector_set 0 0 float_minus_zero 0", THEN conjunct1, THEN mp, OF s(1)]
    by (simp add: zip3_lanes_def vector_set_def z h)
  have 2: "vector_atan2 (undefined\<lparr>scalar_atan2 := scalar_atan2_spec (scalar_atan (undefined :: externals))\<rparr>) Scalar
        (vector_set 0 float_one float_minus_one float_minus_zero) (vector_set 0 0 float_minus_zero 0)
      = vector_set 0 float_half_pi 0xBFC90FDB 0"
    unfolding vector_atan2_quadrants [where b = Scalar and ext = undefined
        and y = "vector_set 0 float_one float_minus_one float_minus_zero"
        and x = "vector_set 0 0 float_minus_zero 0", THEN conjunct2, THEN conjunct2, THEN conjunct2,
        THEN conjunct2, THEN conjunct2, THEN conjunct2, THEN conjunct1, THEN mp, OF s(2)]
    by (simp add: zip_lanes_def zip3_lanes_def vector_set_def z h)
  show ?thesis using s z 1 2 by simp
qed

subsection \<open>C7: the reduction of sine and cosine\<close>

text \<open>
  C7.  The claim is that \<open>vector_sin\<close> and \<open>vector_cos\<close> first bring the input into
  \<open>[-pi, pi]\<close> and then reflect it into \<open>[-pi/2, pi/2]\<close>; the comments of the source say the
  same (\<open>Remap our input in the [-pi, pi] range\<close>, \<open>Remap our input in the [-pi/2, pi/2]
  range\<close>).  The reduction is computed in binary32.  For the lane \<open>0x7149F2CA\<close> (about
  \<open>1.0E30\<close>) the rounded quotient times \<open>2pi\<close> is \<open>0x7149F2C9\<close>, one unit in the last place
  below the input, so that the reduced value is \<open>2^76\<close> (\<open>0x65800000\<close>) and the reflected
  value \<open>-2^76\<close>; its square overflows, and on the SSE2 path \<open>vector_sin\<close> returns
  \<open>+infinity\<close> and \<open>vector_cos\<close> returns \<open>-infinity\<close>.  For the lane \<open>0x4358C519\<close> (about
  \<open>216.77\<close>) the reduced value \<open>0x40491000\<close> is above \<open>pi\<close>.
\<close>

theorem vector_sin_cos_reduction_out_of_range:
  "range_reduction (round_bankers_lane ext SSE2) 0x7149F2CA = 0x65800000 \<and>
   fgt (fabs 0x65800000) float_pi \<and>
   reflection 0x65800000 = 0xE5800000 \<and>
   fgt (fabs 0xE5800000) float_half_pi \<and>
   vector_sin ext SSE2 (vector_set1 0x7149F2CA) = vector_set1 0x7F800000 \<and>
   vector_cos ext SSE2 (vector_set1 0x7149F2CA) = vector_set1 0xFF800000 \<and>
   0x7F800000 = float_infinity \<and> 0xFF800000 = fneg float_infinity \<and>
   range_reduction (round_bankers_lane ext SSE2) 0x4358C519 = 0x40491000 \<and>
   fgt (fabs 0x40491000) float_pi"
proof -
  have s: "sse2_intrinsics SSE2" by (simp add: backend_flags)
  have c: "fgt (fabs 0x40491000) float_pi" "fgt (fabs 0x65800000) float_pi"
      "fgt (fabs 0xE5800000) float_half_pi"
    by (simp_all add: cmp_eval fabs_def float_pi_def float_half_pi_def)
  have i: "(0x7F800000 :: lane) = float_infinity" "(0xFF800000 :: lane) = fneg float_infinity"
    by (simp_all add: float_infinity_def fneg_def)
  show ?thesis
    using c i
    by (simp add: vector_sin_sse2 [OF s] vector_cos_sse2 [OF s] sin_cos_at_1e30 reduction_of_216
        reduction_of_1e30 map_lanes_def vector_set1_def vector_set_def)
qed

end
